theory Spec2Isabelle
  imports Complex_Main "HOL-Library.Word" "HOL-Library.Sublist" "HOL-Library.Multiset"
    "HOL-Library.Product_Lexorder"
begin

section \<open>Values of the platform\<close>

text \<open>
  The client is a TypeScript/React page.  Text that the client only passes through (file
  names, descriptions, error texts, URLs) is a \<open>string\<close>.  The search text is inspected
  by \<open>encodeURIComponent\<close>, whose result depends on the UTF-16 code units of a JavaScript
  string, so it is a list of 16-bit code units.  \<open>js\<close> embeds an ASCII literal.
\<close>

type_synonym js_string = "16 word list"

definition js :: "string \<Rightarrow> js_string" where
  "js s = map (\<lambda>c. of_nat (of_char c)) s"

text \<open>
  What a JavaScript call can throw in the code modelled here: \<open>new Error(msg)\<close> of the
  source, the \<open>TypeError\<close> of calling a property that is \<open>undefined\<close> and of a rejected
  \<open>fetch\<close>, the \<open>URIError\<close> of \<open>encodeURIComponent\<close>, and the \<open>SyntaxError\<close> of
  \<open>response.json()\<close> on a body that is not JSON.
\<close>

datatype js_error = Error string | TypeError string | URIError string | SyntaxError string

text \<open>\<open>error.message\<close>.\<close>

fun message :: "js_error \<Rightarrow> string" where
  "message (Error m) = m"
| "message (TypeError m) = m"
| "message (URIError m) = m"
| "message (SyntaxError m) = m"

datatype http_method = GET | POST

record File =
  file_name :: string
  file_bytes :: "8 word list"

text \<open>A \<open>FormData\<close> body is the list of its entries in the order they were appended.\<close>

datatype form_value = FileValue File | TextValue string

type_synonym form_data = "(string \<times> form_value) list"

definition append_entry :: "form_data \<Rightarrow> string \<Rightarrow> form_value \<Rightarrow> form_data" where
  "append_entry fd name v = fd @ [(name, v)]"

text \<open>
  A request as \<open>fetch(url, init)\<close> issues it: \<open>fetch(url)\<close> alone is a \<open>GET\<close> without a
  body.
\<close>

record request =
  req_method :: http_method
  req_url :: string
  req_body :: "form_data option"

text \<open>
  A response, by the four readings the client uses: \<open>response.ok\<close>, \<open>response.text()\<close>,
  \<open>response.json()\<close> (\<open>Inl\<close> the message of the \<open>SyntaxError\<close> the call rejects with
  when the body is not JSON) and \<open>response.blob()\<close>.  TypeScript's types are erased: the type
  parameter is the type the caller's annotation gives the parsed body.
\<close>

record 'a response =
  resp_ok :: bool
  resp_text :: string
  resp_json :: "string + 'a"
  resp_blob :: "8 word list"

text \<open>\<open>fetch\<close>: the network's answer to a request, or the error the promise rejects with.\<close>

type_synonym 'a fetch = "request \<Rightarrow> js_error + 'a response"

text \<open>
  An API call yields the requests it issued, in order, and what its promise settles to
  (\<open>Inl\<close> a rejection).
\<close>

type_synonym 'a outcome = "request list \<times> (js_error + 'a)"

subsection \<open>Numbers in template literals\<close>

text \<open>
  \<open>topK\<close> and \<open>imageId\<close> are \<open>number\<close>s, that is IEEE doubles, holding integers (the wire
  contract's \<open>top_k\<close> and the catalog's ids).  An integer is given here as an \<open>int\<close>: it
  stands for the number that the integer literal denotes, which is the double nearest to
  it.  A template literal prints a number by \<open>Number::toString\<close> (ECMA-262): the fewest
  significant decimal digits that still denote the same double (of several such the
  nearest, of two equally near the even one), padded with zeros below \<open>10^21\<close> and in
  exponent form from there.  An integer of magnitude below \<open>2^53\<close> is its own double and is
  printed digit by digit.
\<close>

definition digit_char :: "nat \<Rightarrow> char" where
  "digit_char d = ''0123456789'' ! d"

fun digits :: "nat \<Rightarrow> string" where
  "digits n = (if n < 10 then [digit_char n] else digits (n div 10) @ [digit_char (n mod 10)])"

text \<open>\<open>Number.isSafeInteger\<close>, on integers.\<close>

definition isSafeInteger :: "int \<Rightarrow> bool" where
  "isSafeInteger n \<longleftrightarrow> \<bar>n\<bar> < 2 ^ 53"

fun bit_length :: "nat \<Rightarrow> nat" where
  "bit_length n = (if n = 0 then 0 else Suc (bit_length (n div 2)))"

text \<open>
  The double nearest to a natural number, ties to the even significand.  \<open>None\<close> is
  \<open>Infinity\<close>, which is what a number rounds to from \<open>2^1024\<close> on: when it has more than
  1024 bits, or has 1024 bits and its significand rounds up to \<open>2^53\<close>.
\<close>

definition round_to_double :: "nat \<Rightarrow> nat option" where
  "round_to_double v =
     (let b = bit_length v
      in if b \<le> 53 then Some v
         else
           (let sh = b - 53;
                q = v div 2 ^ sh;
                r = v mod 2 ^ sh;
                half = 2 ^ (sh - 1);
                m = (if half < r \<or> (r = half \<and> odd q) then q + 1 else q);
                x = m * 2 ^ sh
            in if 1024 < b \<or> (b = 1024 \<and> m = 2 ^ 53) then None else Some x))"

text \<open>
  Of the decimals of \<open>k\<close> significant digits, counted from the leading digit of \<open>x\<close>, the
  two around \<open>x\<close>; the one to print is one that denotes the double \<open>x\<close>, the nearer to \<open>x\<close> of
  two, the one of even last digit when they are equally near.
\<close>

definition pick_decimal :: "nat \<Rightarrow> nat \<Rightarrow> nat option" where
  "pick_decimal x k =
     (let u = 10 ^ (length (digits x) - k);
          lo = (x div u) * u;
          hi = lo + u;
          lo_ok = (round_to_double lo = Some x);
          hi_ok = (round_to_double hi = Some x)
      in if lo_ok \<and> hi_ok then
           (if x - lo < hi - x then Some lo
            else if hi - x < x - lo then Some hi
            else if even (lo div u) then Some lo else Some hi)
         else if lo_ok then Some lo
         else if hi_ok then Some hi
         else None)"

text \<open>The search for the fewest digits, from \<open>k\<close> on; \<open>x\<close> itself is found at the latest.\<close>

fun shortest_from :: "nat \<Rightarrow> nat \<Rightarrow> nat \<Rightarrow> nat" where
  "shortest_from x k 0 = x"
| "shortest_from x k (Suc fuel) =
     (case pick_decimal x k of Some v \<Rightarrow> v | None \<Rightarrow> shortest_from x (Suc k) fuel)"

definition shortest_decimal :: "nat \<Rightarrow> nat" where
  "shortest_decimal x = shortest_from x 1 (length (digits x))"

definition strip_zeros :: "string \<Rightarrow> string" where
  "strip_zeros s = rev (dropWhile (\<lambda>c. c = CHR ''0'') (rev s))"

text \<open>
  The decimal \<open>v\<close> as \<open>Number::toString\<close> writes it: all its digits when they are at most
  21, and otherwise the significant digits, a point after the first when there are more,
  and the exponent.
\<close>

definition format_decimal :: "nat \<Rightarrow> string" where
  "format_decimal v =
     (let s = digits v; n = length s
      in if n \<le> 21 then s
         else
           (let sig = strip_zeros s
            in hd sig # (if tl sig = [] then [] else CHR ''.'' # tl sig)
                 @ ''e+'' @ digits (n - 1)))"

definition number_digits :: "nat \<Rightarrow> string" where
  "number_digits v =
     (if v < 2 ^ 53 then digits v
      else (case round_to_double v of
              None \<Rightarrow> ''Infinity''
            | Some x \<Rightarrow> format_decimal (shortest_decimal x)))"

definition Number_toString :: "int \<Rightarrow> string" where
  "Number_toString n =
     (if n < 0 then CHR ''-'' # number_digits (nat (- n)) else number_digits (nat n))"

text \<open>
  Reading a decimal numeral, as the server reads a path segment or a query parameter: an
  optional minus sign and digits.
\<close>

definition digit_value :: "char \<Rightarrow> nat option" where
  "digit_value c = (if c \<in> set ''0123456789'' then Some (of_char c - 48) else None)"

fun read_digits :: "nat \<Rightarrow> string \<Rightarrow> nat option" where
  "read_digits acc [] = Some acc"
| "read_digits acc (c # cs) =
     (case digit_value c of None \<Rightarrow> None | Some d \<Rightarrow> read_digits (10 * acc + d) cs)"

definition read_decimal :: "string \<Rightarrow> int option" where
  "read_decimal s =
     (case s of
        [] \<Rightarrow> None
      | c # cs \<Rightarrow>
          if c = CHR ''-'' then (if cs = [] then None else map_option (\<lambda>n. - int n) (read_digits 0 cs))
          else map_option int (read_digits 0 s))"

subsection \<open>encodeURIComponent\<close>

text \<open>
  ECMA-262, \<open>Encode(string, extraUnescaped)\<close> with no extra unescaped characters: a code
  unit of the unescaped set is copied; any other is read as a code point (a leading
  surrogate with the trailing surrogate after it), an unpaired surrogate throws a
  \<open>URIError\<close> (with V8's message), and the code point's UTF-8 octets are written as
  \<open>%XX\<close> in upper-case hexadecimal.
\<close>

definition malformed :: js_error where
  "malformed = URIError ''URI malformed''"

definition unescapedSet :: string where
  "unescapedSet =
     ''ABCDEFGHIJKLMNOPQRSTUVWXYZabcdefghijklmnopqrstuvwxyz0123456789_-.!~*'' @ [CHR 0x27] @ ''()''"

definition is_unescaped :: "16 word \<Rightarrow> bool" where
  "is_unescaped c \<longleftrightarrow> unat c < 128 \<and> char_of (unat c) \<in> set unescapedSet"

definition is_leading_surrogate :: "16 word \<Rightarrow> bool" where
  "is_leading_surrogate c \<longleftrightarrow> 0xD800 \<le> unat c \<and> unat c \<le> 0xDBFF"

definition is_trailing_surrogate :: "16 word \<Rightarrow> bool" where
  "is_trailing_surrogate c \<longleftrightarrow> 0xDC00 \<le> unat c \<and> unat c \<le> 0xDFFF"

definition surrogate_pair_to_code_point :: "16 word \<Rightarrow> 16 word \<Rightarrow> nat" where
  "surrogate_pair_to_code_point lead trail =
     (unat lead - 0xD800) * 0x400 + (unat trail - 0xDC00) + 0x10000"

definition utf8_octets :: "nat \<Rightarrow> nat list" where
  "utf8_octets cp =
     (if cp < 0x80 then [cp]
      else if cp < 0x800 then [0xC0 + cp div 64, 0x80 + cp mod 64]
      else if cp < 0x10000 then
        [0xE0 + cp div 4096, 0x80 + (cp div 64) mod 64, 0x80 + cp mod 64]
      else
        [0xF0 + cp div 262144, 0x80 + (cp div 4096) mod 64, 0x80 + (cp div 64) mod 64,
         0x80 + cp mod 64])"

definition hex_digit :: "nat \<Rightarrow> char" where
  "hex_digit d = ''0123456789ABCDEF'' ! d"

definition percent_octet :: "nat \<Rightarrow> string" where
  "percent_octet b = [CHR ''%'', hex_digit (b div 16), hex_digit (b mod 16)]"

definition percent_encode :: "nat \<Rightarrow> string" where
  "percent_encode cp = concat (map percent_octet (utf8_octets cp))"

text \<open>
  \<open>String.prototype.isWellFormed\<close>: no code unit is an unpaired surrogate.
\<close>

fun isWellFormed :: "js_string \<Rightarrow> bool" where
  "isWellFormed [] = True"
| "isWellFormed [c] = (\<not> is_leading_surrogate c \<and> \<not> is_trailing_surrogate c)"
| "isWellFormed (c # d # ds) =
     (if is_leading_surrogate c then is_trailing_surrogate d \<and> isWellFormed ds
      else \<not> is_trailing_surrogate c \<and> isWellFormed (d # ds))"

definition then_append :: "string \<Rightarrow> js_error + string \<Rightarrow> js_error + string" where
  "then_append s r = (case r of Inl e \<Rightarrow> Inl e | Inr t \<Rightarrow> Inr (s @ t))"

fun encodeURIComponent :: "js_string \<Rightarrow> js_error + string" where
  "encodeURIComponent [] = Inr []"
| "encodeURIComponent [c] =
     (if is_unescaped c then Inr [char_of (unat c)]
      else if is_leading_surrogate c \<or> is_trailing_surrogate c then Inl malformed
      else Inr (percent_encode (unat c)))"
| "encodeURIComponent (c # d # ds) =
     (if is_unescaped c then then_append [char_of (unat c)] (encodeURIComponent (d # ds))
      else if is_trailing_surrogate c then Inl malformed
      else if is_leading_surrogate c then
        (if is_trailing_surrogate d
         then then_append (percent_encode (surrogate_pair_to_code_point c d))
                (encodeURIComponent ds)
         else Inl malformed)
      else then_append (percent_encode (unat c)) (encodeURIComponent (d # ds)))"

section \<open>The API layer of \<open>src/app/page.tsx\<close>\<close>

definition API_BASE :: string where
  "API_BASE = ''http://localhost:5000''"

text \<open>
  The interfaces \<open>Image\<close> and \<open>SearchResult extends Image\<close>; \<open>description?\<close> is an
  optional property.
\<close>

record Image =
  image_id :: int
  filename :: string
  description :: "string option"

record SearchResult = Image +
  similarity :: real

text \<open>\<open>a || b\<close> on strings: the empty string is the only falsy one.\<close>

definition or_else :: "string \<Rightarrow> string \<Rightarrow> string" where
  "or_else a b = (if a = [] then b else a)"

text \<open>
  \<open>await fetch(url, init)\<close> followed by the rest of the function: the request is issued,
  a rejected \<open>fetch\<close> rejects the caller, a response is handed to the continuation.
\<close>

definition await_fetch :: "'a fetch \<Rightarrow> request \<Rightarrow> ('a response \<Rightarrow> js_error + 'b) \<Rightarrow> 'b outcome" where
  "await_fetch fetch req k = ([req], case fetch req of Inl e \<Rightarrow> Inl e | Inr response \<Rightarrow> k response)"

definition handleResponse :: "'a response \<Rightarrow> js_error + 'a" where
  "handleResponse response =
     (if \<not> resp_ok response then
        (let errorText = resp_text response
         in Inl (Error (or_else errorText ''An error occurred'')))
      else (case resp_json response of Inl m \<Rightarrow> Inl (SyntaxError m) | Inr v \<Rightarrow> Inr v))"

definition fetchImages :: "Image list fetch \<Rightarrow> Image list outcome" where
  "fetchImages fetch =
     await_fetch fetch
       \<lparr>req_method = GET, req_url = API_BASE @ ''/list_images'', req_body = None\<rparr>
       handleResponse"

text \<open>
  \<open>{ query, topK = 5 }\<close>: the default applies when the property is absent (or
  \<open>undefined\<close>).  \<open>encodeURIComponent\<close> runs while the URL is built, before \<open>fetch\<close> is
  called, so its \<open>URIError\<close> rejects the call with no request issued.
\<close>

definition searchImages ::
  "SearchResult list fetch \<Rightarrow> js_string \<Rightarrow> int option \<Rightarrow> SearchResult list outcome" where
  "searchImages fetch query topK_opt =
     (let topK = (case topK_opt of None \<Rightarrow> 5 | Some k \<Rightarrow> k)
      in case encodeURIComponent query of
           Inl e \<Rightarrow> ([], Inl e)
         | Inr q \<Rightarrow>
             await_fetch fetch
               \<lparr>req_method = GET,
                req_url = API_BASE @ ''/search?query='' @ q @ ''&top_k='' @ Number_toString topK,
                req_body = None\<rparr>
               handleResponse)"

definition addImage :: "Image fetch \<Rightarrow> File \<Rightarrow> string \<Rightarrow> Image outcome" where
  "addImage fetch file desc =
     (let formData = [];
          formData = append_entry formData ''image'' (FileValue file);
          formData = append_entry formData ''description'' (TextValue desc)
      in await_fetch fetch
           \<lparr>req_method = POST, req_url = API_BASE @ ''/add_image'', req_body = Some formData\<rparr>
           handleResponse)"

definition downloadImage :: "'a fetch \<Rightarrow> int \<Rightarrow> 8 word list outcome" where
  "downloadImage fetch imageId =
     await_fetch fetch
       \<lparr>req_method = GET,
        req_url = API_BASE @ ''/download_image/'' @ Number_toString imageId,
        req_body = None\<rparr>
       (\<lambda>response.
          if \<not> resp_ok response then
            (let errorText = resp_text response
             in Inl (Error (or_else errorText ''Failed to download image'')))
          else Inr (resp_blob response))"

section \<open>The API layer of \<open>src/unnamed/part_000\<close>\<close>

definition API_BASE_part000 :: string where
  "API_BASE_part000 = ''http://localhost:5000''"

definition handleResponse_part000 :: "'a response \<Rightarrow> js_error + 'a" where
  "handleResponse_part000 response =
     (if \<not> resp_ok response then
        (let errorText = resp_text response
         in Inl (Error (or_else errorText ''An error occurred'')))
      else (case resp_json response of Inl m \<Rightarrow> Inl (SyntaxError m) | Inr v \<Rightarrow> Inr v))"

definition fetchImages_part000 :: "Image list fetch \<Rightarrow> Image list outcome" where
  "fetchImages_part000 fetch =
     await_fetch fetch
       \<lparr>req_method = GET, req_url = API_BASE_part000 @ ''/list_images'', req_body = None\<rparr>
       handleResponse_part000"

definition searchImages_part000 ::
  "SearchResult list fetch \<Rightarrow> js_string \<Rightarrow> int option \<Rightarrow> SearchResult list outcome" where
  "searchImages_part000 fetch query topK_opt =
     (let topK = (case topK_opt of None \<Rightarrow> 5 | Some k \<Rightarrow> k)
      in case encodeURIComponent query of
           Inl e \<Rightarrow> ([], Inl e)
         | Inr q \<Rightarrow>
             await_fetch fetch
               \<lparr>req_method = GET,
                req_url =
                  API_BASE_part000 @ ''/search?query='' @ q @ ''&top_k='' @ Number_toString topK,
                req_body = None\<rparr>
               handleResponse_part000)"

definition addImage_part000 :: "Image fetch \<Rightarrow> File \<Rightarrow> string \<Rightarrow> Image outcome" where
  "addImage_part000 fetch file desc =
     (let formData = [];
          formData = append_entry formData ''image'' (FileValue file);
          formData = append_entry formData ''description'' (TextValue desc)
      in await_fetch fetch
           \<lparr>req_method = POST, req_url = API_BASE_part000 @ ''/add_image'',
            req_body = Some formData\<rparr>
           handleResponse_part000)"

definition downloadImage_part000 :: "'a fetch \<Rightarrow> int \<Rightarrow> 8 word list outcome" where
  "downloadImage_part000 fetch imageId =
     await_fetch fetch
       \<lparr>req_method = GET,
        req_url = API_BASE_part000 @ ''/download_image/'' @ Number_toString imageId,
        req_body = None\<rparr>
       (\<lambda>response.
          if \<not> resp_ok response then
            (let errorText = resp_text response
             in Inl (Error (or_else errorText ''Failed to download image'')))
          else Inr (resp_blob response))"

section \<open>Reading a request URL\<close>

text \<open>
  What a server sees of a URL of the client: the endpoint, which is the first path segment
  after the base URL, and the query parameters, which follow the first \<open>?\<close>, are separated by
  \<open>&\<close> and split at their first \<open>=\<close>.
\<close>

definition endpoint :: "string \<Rightarrow> string \<Rightarrow> string option" where
  "endpoint base u =
     (if prefix (base @ ''/'') u
      then Some (takeWhile (\<lambda>c. c \<noteq> CHR ''/'' \<and> c \<noteq> CHR ''?'') (drop (length base + 1) u))
      else None)"

fun split_on :: "char \<Rightarrow> string \<Rightarrow> string list" where
  "split_on d [] = [[]]"
| "split_on d (c # cs) =
     (if c = d then [] # split_on d cs
      else (case split_on d cs of [] \<Rightarrow> [[c]] | w # ws \<Rightarrow> (c # w) # ws))"

definition key_value :: "string \<Rightarrow> string \<times> string" where
  "key_value s = (takeWhile (\<lambda>c. c \<noteq> CHR ''='') s, drop 1 (dropWhile (\<lambda>c. c \<noteq> CHR ''='') s))"

text \<open>The characters \<open>encodeURIComponent\<close> can write.\<close>

definition url_chars :: "char set" where
  "url_chars = insert CHR ''%'' (set unescapedSet)"

definition query_params :: "string \<Rightarrow> (string \<times> string) list" where
  "query_params u =
     map key_value (split_on CHR ''&'' (drop 1 (dropWhile (\<lambda>c. c \<noteq> CHR ''?'') u)))"


section \<open>React state and the React Query cache\<close>

text \<open>
  The state of the page: the three \<open>useState\<close> cells, the query cache of the
  \<open>QueryClient\<close>, the notifications shown, and the requests issued so far.  A cached
  query holds its data and the flag \<open>invalidateQueries\<close> sets; a query key is an array of
  strings.
\<close>

datatype toast_kind = Success | Failure

datatype query_data = ImagesData "Image list" | SearchData "SearchResult list"

record query_entry =
  entry_data :: "query_data option"
  isInvalidated :: bool

type_synonym queryKey = "js_string list"

record client_state =
  searchQueryText :: js_string
  uploadFile :: "File option"
  uploadDescription :: string
  queryCache :: "queryKey \<Rightarrow> query_entry option"
  toasts :: "(toast_kind \<times> string) list"
  requests :: "request list"

text \<open>
  A block of statements run on the state: the state it reaches, and the error thrown if a
  statement threw (the statements after it do not run).
\<close>

type_synonym handler = "client_state \<Rightarrow> client_state \<times> js_error option"

definition effect :: "(client_state \<Rightarrow> client_state) \<Rightarrow> handler" where
  "effect f s = (f s, None)"

definition and_then :: "handler \<Rightarrow> handler \<Rightarrow> handler" where
  "and_then f g s = (case f s of (s1, None) \<Rightarrow> g s1 | (s1, Some e) \<Rightarrow> (s1, Some e))"

text \<open>
  An object is the map of its properties.  \<open>obj.name(arg)\<close> throws a \<open>TypeError\<close> when the
  property is \<open>undefined\<close>.
\<close>

type_synonym js_object = "string \<Rightarrow> (string \<Rightarrow> client_state \<Rightarrow> client_state) option"

definition call_method :: "string \<Rightarrow> js_object \<Rightarrow> string \<Rightarrow> string \<Rightarrow> handler" where
  "call_method obj_name obj name arg s =
     (case obj name of
        None \<Rightarrow> (s, Some (TypeError (obj_name @ ''.'' @ name @ '' is not a function'')))
      | Some m \<Rightarrow> (m arg s, None))"

definition show_toast :: "toast_kind \<Rightarrow> string \<Rightarrow> client_state \<Rightarrow> client_state" where
  "show_toast kind msg s = s\<lparr>toasts := toasts s @ [(kind, msg)]\<rparr>"

definition setUploadFile :: "File option \<Rightarrow> client_state \<Rightarrow> client_state" where
  "setUploadFile v s = s\<lparr>uploadFile := v\<rparr>"

definition setUploadDescription :: "string \<Rightarrow> client_state \<Rightarrow> client_state" where
  "setUploadDescription v s = s\<lparr>uploadDescription := v\<rparr>"

definition setSearchQueryText :: "js_string \<Rightarrow> client_state \<Rightarrow> client_state" where
  "setSearchQueryText v s = s\<lparr>searchQueryText := v\<rparr>"

text \<open>
  The network: what \<open>fetch\<close> answers, by the type of the body each endpoint answers with
  (the list of images, the search results, the added image).
\<close>

record network =
  net_list_images :: "Image list fetch"
  net_search :: "SearchResult list fetch"
  net_add_image :: "Image fetch"

text \<open>
  React Query, the runs of a query function in one fetch of a query.  Neither file sets
  \<open>retry\<close>, so the default \<open>retry: 3\<close> applies: a query function that rejects is run again,
  up to three more times.  The answer of the network to a request is a function of the
  request here, so a run that rejects rejects again: four runs in all, and one run when
  the function resolves.
\<close>

definition query_attempts :: "'a outcome \<Rightarrow> nat" where
  "query_attempts call = (case snd call of Inl e \<Rightarrow> 4 | Inr d \<Rightarrow> 1)"

text \<open>
  React Query, one fetch of a query: the query function runs, with the retries, each run
  issues its requests, and data it resolves to is stored under the query key; a rejection
  leaves the data and the flag.
\<close>

definition run_query :: "queryKey \<Rightarrow> 'a outcome \<Rightarrow> ('a \<Rightarrow> query_data) \<Rightarrow> client_state \<Rightarrow> client_state" where
  "run_query key call wrap s =
     (let s1 = s\<lparr>requests := requests s @ concat (replicate (query_attempts call) (fst call))\<rparr>
      in case snd call of
           Inr d \<Rightarrow>
             s1\<lparr>queryCache :=
                  (queryCache s1)(key \<mapsto> \<lparr>entry_data = Some (wrap d), isInvalidated = False\<rparr>)\<rparr>
         | Inl e \<Rightarrow> s1)"

text \<open>
  A mounted \<open>useQuery\<close>: its key, whether it is enabled, and the fetch of its query.
\<close>

type_synonym observer = "queryKey \<times> bool \<times> (client_state \<Rightarrow> client_state)"

text \<open>
  React Query, \<open>queryClient.invalidateQueries({ queryKey })\<close>: every cached query whose key
  starts with the given key is marked invalidated and no other query is touched; then
  every such query that has a mounted, enabled observer is fetched again.
\<close>

definition mark_invalidated :: "queryKey \<Rightarrow> client_state \<Rightarrow> client_state" where
  "mark_invalidated key s =
     s\<lparr>queryCache :=
         (\<lambda>k. if prefix key k
              then map_option (\<lambda>e. e\<lparr>isInvalidated := True\<rparr>) (queryCache s k)
              else queryCache s k)\<rparr>"

definition refetch_matching :: "queryKey \<Rightarrow> observer \<Rightarrow> client_state \<Rightarrow> client_state" where
  "refetch_matching key ob s =
     (case ob of (k, enabled, refetch) \<Rightarrow> if prefix key k \<and> enabled then refetch s else s)"

definition invalidateQueries :: "observer list \<Rightarrow> queryKey \<Rightarrow> client_state \<Rightarrow> client_state" where
  "invalidateQueries observers key s = fold (refetch_matching key) observers (mark_invalidated key s)"

text \<open>
  React Query, \<open>mutation.mutate(variables)\<close>: the mutation function runs; when it
  resolves \<open>onSuccess\<close> runs, and if that throws \<open>onError\<close> runs with the thrown error; when
  it rejects \<open>onError\<close> runs.  A mutation is not retried (the default \<open>retry\<close> of a mutation
  is 0), and \<open>mutate\<close> swallows the final error.
\<close>

definition mutate :: "'a outcome \<Rightarrow> ('a \<Rightarrow> handler) \<Rightarrow> (js_error \<Rightarrow> handler) \<Rightarrow> client_state \<Rightarrow> client_state" where
  "mutate call onSuccess onError s =
     (let s1 = s\<lparr>requests := requests s @ fst call\<rparr>
      in case snd call of
           Inr d \<Rightarrow>
             (case onSuccess d s1 of
                (s2, None) \<Rightarrow> s2
              | (s2, Some e) \<Rightarrow> fst (onError e s2))
         | Inl e \<Rightarrow> fst (onError e s1))"

section \<open>The component of \<open>src/app/page.tsx\<close>\<close>

text \<open>\<open>const toast = {} as any\<close>: an object with no property.\<close>

definition toast :: js_object where
  "toast = (\<lambda>name. None)"

text \<open>
  \<open>imagesQuery\<close>: its key and the fetch of its query, by \<open>fetchImages\<close>.
\<close>

definition imagesQuery_queryKey :: queryKey where
  "imagesQuery_queryKey = [js ''images'']"

definition imagesQuery_refetch :: "network \<Rightarrow> client_state \<Rightarrow> client_state" where
  "imagesQuery_refetch net s =
     run_query imagesQuery_queryKey (fetchImages (net_list_images net)) ImagesData s"

text \<open>
  \<open>searchResultsQuery\<close>: its key, its query function, and \<open>enabled: !!searchQueryText\<close>
  (a string is truthy when it is not empty).
\<close>

definition searchResultsQuery_queryKey :: "client_state \<Rightarrow> queryKey" where
  "searchResultsQuery_queryKey s = [js ''search'', searchQueryText s]"

definition searchResultsQuery_queryFn :: "network \<Rightarrow> client_state \<Rightarrow> SearchResult list outcome" where
  "searchResultsQuery_queryFn net s = searchImages (net_search net) (searchQueryText s) None"

definition searchResultsQuery_enabled :: "client_state \<Rightarrow> bool" where
  "searchResultsQuery_enabled s \<longleftrightarrow> searchQueryText s \<noteq> []"

text \<open>
  \<open>searchResultsQuery.refetch()\<close> fetches the query whether it is enabled or not (React
  Query documents \<open>refetch\<close> as the manual trigger of a disabled query).
\<close>

definition searchResultsQuery_refetch :: "network \<Rightarrow> client_state \<Rightarrow> client_state" where
  "searchResultsQuery_refetch net s =
     run_query (searchResultsQuery_queryKey s) (searchResultsQuery_queryFn net s) SearchData s"

text \<open>The two queries the component mounts, as they stand in a state.\<close>

definition observers :: "network \<Rightarrow> client_state \<Rightarrow> observer list" where
  "observers net s =
     [(imagesQuery_queryKey, True, imagesQuery_refetch net),
      (searchResultsQuery_queryKey s, searchResultsQuery_enabled s,
       searchResultsQuery_refetch net)]"

text \<open>
  The search input, \<open>onChange={(e) => setSearchQueryText(e.target.value)}\<close>: the state
  cell is set, and on the render that follows the observer of \<open>searchResultsQuery\<close> fetches
  the query under its new key when the query is enabled (the default \<open>staleTime\<close> is 0).
\<close>

definition searchInput_onChange :: "network \<Rightarrow> js_string \<Rightarrow> client_state \<Rightarrow> client_state" where
  "searchInput_onChange net v s =
     (let s1 = setSearchQueryText v s
      in if v \<noteq> searchQueryText s \<and> searchResultsQuery_enabled s1
         then searchResultsQuery_refetch net s1
         else s1)"

text \<open>
  The Search button, \<open>onClick={() => searchResultsQuery.refetch()}\<close>; it is disabled only
  while the query is fetching.
\<close>

definition searchButton_onClick :: "network \<Rightarrow> client_state \<Rightarrow> client_state" where
  "searchButton_onClick net s = searchResultsQuery_refetch net s"

definition addImageMutation_onSuccess :: "network \<Rightarrow> handler" where
  "addImageMutation_onSuccess net =
     and_then (call_method ''toast'' toast ''success'' ''Image added successfully!'')
       (and_then (effect (\<lambda>s. invalidateQueries (observers net s) [js ''images''] s))
          (and_then (effect (setUploadFile None))
             (effect (setUploadDescription []))))"

definition addImageMutation_onError :: "js_error \<Rightarrow> handler" where
  "addImageMutation_onError error = call_method ''toast'' toast ''error'' ''Error adding image''"

definition addImageMutation_mutate :: "network \<Rightarrow> File \<Rightarrow> string \<Rightarrow> client_state \<Rightarrow> client_state" where
  "addImageMutation_mutate net file desc =
     mutate (addImage (net_add_image net) file desc)
       (\<lambda>data. addImageMutation_onSuccess net) addImageMutation_onError"

definition handleUpload :: "network \<Rightarrow> handler" where
  "handleUpload net s =
     (case uploadFile s of
        None \<Rightarrow> call_method ''toast'' toast ''error'' ''Please select a file to upload'' s
      | Some file \<Rightarrow> (addImageMutation_mutate net file (uploadDescription s) s, None))"

text \<open>\<open>const file = e.target.files?.[0]; if (file) setUploadFile(file)\<close>.\<close>

definition handleFileChange :: "File option \<Rightarrow> client_state \<Rightarrow> client_state" where
  "handleFileChange file s = (case file of None \<Rightarrow> s | Some f \<Rightarrow> setUploadFile (Some f) s)"

section \<open>The component of \<open>src/unnamed/part_000\<close>\<close>

text \<open>
  \<open>import { toast } from "sonner"\<close>: of the library's \<open>toast\<close>, the two methods the page
  calls; each shows a notification.
\<close>

definition toast_part000 :: js_object where
  "toast_part000 =
     (\<lambda>name. if name = ''success'' then Some (show_toast Success)
             else if name = ''error'' then Some (show_toast Failure)
             else None)"

text \<open>
  \<open>imagesQuery\<close>: its key and the fetch of its query, by \<open>fetchImages\<close>.
\<close>

definition imagesQuery_queryKey_part000 :: queryKey where
  "imagesQuery_queryKey_part000 = [js ''images'']"

definition imagesQuery_refetch_part000 :: "network \<Rightarrow> client_state \<Rightarrow> client_state" where
  "imagesQuery_refetch_part000 net s =
     run_query imagesQuery_queryKey_part000 (fetchImages_part000 (net_list_images net)) ImagesData s"

text \<open>
  \<open>searchResultsQuery\<close>: its key, its query function, and \<open>enabled: !!searchQueryText\<close>
  (a string is truthy when it is not empty).
\<close>

definition searchResultsQuery_queryKey_part000 :: "client_state \<Rightarrow> queryKey" where
  "searchResultsQuery_queryKey_part000 s = [js ''search'', searchQueryText s]"

definition searchResultsQuery_queryFn_part000 :: "network \<Rightarrow> client_state \<Rightarrow> SearchResult list outcome" where
  "searchResultsQuery_queryFn_part000 net s = searchImages_part000 (net_search net) (searchQueryText s) None"

definition searchResultsQuery_enabled_part000 :: "client_state \<Rightarrow> bool" where
  "searchResultsQuery_enabled_part000 s \<longleftrightarrow> searchQueryText s \<noteq> []"

text \<open>
  \<open>searchResultsQuery.refetch()\<close> fetches the query whether it is enabled or not (React
  Query documents \<open>refetch\<close> as the manual trigger of a disabled query).
\<close>

definition searchResultsQuery_refetch_part000 :: "network \<Rightarrow> client_state \<Rightarrow> client_state" where
  "searchResultsQuery_refetch_part000 net s =
     run_query (searchResultsQuery_queryKey_part000 s) (searchResultsQuery_queryFn_part000 net s) SearchData s"

text \<open>The two queries the component mounts, as they stand in a state.\<close>

definition observers_part000 :: "network \<Rightarrow> client_state \<Rightarrow> observer list" where
  "observers_part000 net s =
     [(imagesQuery_queryKey_part000, True, imagesQuery_refetch_part000 net),
      (searchResultsQuery_queryKey_part000 s, searchResultsQuery_enabled_part000 s,
       searchResultsQuery_refetch_part000 net)]"

text \<open>
  The search input, \<open>onChange={(e) => setSearchQueryText(e.target.value)}\<close>: the state
  cell is set, and on the render that follows the observer of \<open>searchResultsQuery\<close> fetches
  the query under its new key when the query is enabled (the default \<open>staleTime\<close> is 0).
\<close>

definition searchInput_onChange_part000 :: "network \<Rightarrow> js_string \<Rightarrow> client_state \<Rightarrow> client_state" where
  "searchInput_onChange_part000 net v s =
     (let s1 = setSearchQueryText v s
      in if v \<noteq> searchQueryText s \<and> searchResultsQuery_enabled_part000 s1
         then searchResultsQuery_refetch_part000 net s1
         else s1)"

text \<open>
  The Search button, \<open>onClick={() => searchResultsQuery.refetch()}\<close>; it is disabled only
  while the query is fetching.
\<close>

definition searchButton_onClick_part000 :: "network \<Rightarrow> client_state \<Rightarrow> client_state" where
  "searchButton_onClick_part000 net s = searchResultsQuery_refetch_part000 net s"

definition addImageMutation_onSuccess_part000 :: "network \<Rightarrow> handler" where
  "addImageMutation_onSuccess_part000 net =
     and_then (call_method ''toast'' toast_part000 ''success'' ''Image added successfully!'')
       (and_then (effect (\<lambda>s. invalidateQueries (observers_part000 net s) [js ''images''] s))
          (and_then (effect (setUploadFile None))
             (effect (setUploadDescription []))))"

definition addImageMutation_onError_part000 :: "js_error \<Rightarrow> handler" where
  "addImageMutation_onError_part000 error =
     call_method ''toast'' toast_part000 ''error'' (''Error adding image: '' @ message error)"

definition addImageMutation_mutate_part000 :: "network \<Rightarrow> File \<Rightarrow> string \<Rightarrow> client_state \<Rightarrow> client_state" where
  "addImageMutation_mutate_part000 net file desc =
     mutate (addImage_part000 (net_add_image net) file desc)
       (\<lambda>data. addImageMutation_onSuccess_part000 net) addImageMutation_onError_part000"

definition handleUpload_part000 :: "network \<Rightarrow> handler" where
  "handleUpload_part000 net s =
     (case uploadFile s of
        None \<Rightarrow> call_method ''toast'' toast_part000 ''error'' ''Please select a file to upload'' s
      | Some file \<Rightarrow> (addImageMutation_mutate_part000 net file (uploadDescription s) s, None))"

text \<open>\<open>const file = e.target.files?.[0]; if (file) setUploadFile(file)\<close>.\<close>

definition handleFileChange_part000 :: "File option \<Rightarrow> client_state \<Rightarrow> client_state" where
  "handleFileChange_part000 file s = (case file of None \<Rightarrow> s | Some f \<Rightarrow> setUploadFile (Some f) s)"

section \<open>States and networks of the examples\<close>

text \<open>
  The state in which the component mounts, a state with a file selected and the list of
  images cached, a network that is down (every \<open>fetch\<close> rejects) and one whose server
  answers every request with 200 and a JSON body.
\<close>

definition initial_state :: client_state where
  "initial_state =
     \<lparr>searchQueryText = [], uploadFile = None, uploadDescription = [],
      queryCache = (\<lambda>k. None), toasts = [], requests = []\<rparr>"

definition ready_state :: client_state where
  "ready_state =
     \<lparr>searchQueryText = [],
      uploadFile = Some \<lparr>file_name = ''cat.jpg'', file_bytes = [0xFF, 0xD8]\<rparr>,
      uploadDescription = ''a cat'',
      queryCache = (\<lambda>k. None)([js ''images''] \<mapsto>
        \<lparr>entry_data = Some (ImagesData []), isInvalidated = False\<rparr>),
      toasts = [], requests = []\<rparr>"

definition offline :: network where
  "offline =
     \<lparr>net_list_images = (\<lambda>r. Inl (TypeError ''Failed to fetch'')),
      net_search = (\<lambda>r. Inl (TypeError ''Failed to fetch'')),
      net_add_image = (\<lambda>r. Inl (TypeError ''Failed to fetch''))\<rparr>"

definition online :: network where
  "online =
     \<lparr>net_list_images =
        (\<lambda>r. Inr \<lparr>resp_ok = True, resp_text = [], resp_json = Inr [], resp_blob = []\<rparr>),
      net_search =
        (\<lambda>r. Inr \<lparr>resp_ok = True, resp_text = [], resp_json = Inr [], resp_blob = []\<rparr>),
      net_add_image =
        (\<lambda>r. Inr \<lparr>resp_ok = True, resp_text = [],
                  resp_json = Inr \<lparr>image_id = 1, filename = ''cat.jpg'',
                                    description = Some ''a cat''\<rparr>,
                  resp_blob = []\<rparr>)\<rparr>"

section \<open>The vector index of the search engine\<close>

text \<open>
  The pages call a backend (the Flask service of the README) whose code is not among the
  sources.  Its Vector Index is modelled here from sections 3 and 4.1 of the
  specification, with the components of a vector taken as real numbers.
\<close>

text \<open>Modelled from the spec: the failures \<open>IndexError\<close> of the Vector Index operations
  (section 4.1), whose code is missing.\<close>

datatype index_error = DimensionMismatch | DuplicateId | NotFound

text \<open>Modelled from the spec: the Vector Index Entry \<open>(id, vector, norm)\<close> of section 3,
  \<open>norm\<close> being the cached L2 norm; the engine's data types are missing.\<close>

record index_entry =
  entry_id :: int
  entry_vector :: "real list"
  entry_norm :: real

text \<open>Modelled from the spec: the state of the Vector Index, whose code is missing: the
  dimension \<open>D\<close>, fixed by the first successful insertion, and the live entries.\<close>

record vector_index =
  index_dim :: "nat option"
  index_entries :: "index_entry list"

text \<open>Modelled from the spec: the index before any insertion; the engine's constructor is
  missing.\<close>

definition empty_index :: vector_index where
  "empty_index = \<lparr>index_dim = None, index_entries = []\<rparr>"

text \<open>Modelled from the spec: \<open>dot(query, v)\<close> of section 4.1, the sum of the products of
  the components; the engine's arithmetic is missing.\<close>

definition dot :: "real list \<Rightarrow> real list \<Rightarrow> real" where
  "dot u v = sum_list (map (\<lambda>(x, y). x * y) (zip u v))"

text \<open>Modelled from the spec: the L2 norm of section 3, missing with the engine.\<close>

definition l2_norm :: "real list \<Rightarrow> real" where
  "l2_norm v = sqrt (dot v v)"

text \<open>Modelled from the spec: the similarity of section 4.1 from the two norms the search
  has at hand, the quotient of \<open>dot(query, v)\<close> by the product of the two norms, and \<open>0\<close> when either norm is zero; the
  engine's ranking code is missing.\<close>

definition similarity_of :: "real list \<Rightarrow> real \<Rightarrow> real list \<Rightarrow> real \<Rightarrow> real" where
  "similarity_of q nq v nv = (if nq = 0 \<or> nv = 0 then 0 else dot q v / (nq * nv))"

text \<open>Modelled from the spec: \<open>size()\<close> of section 4.1, the count of live entries; missing
  with the engine.\<close>

definition index_size :: "vector_index \<Rightarrow> nat" where
  "index_size idx = length (index_entries idx)"

text \<open>Modelled from the spec: \<open>insert(id, vector)\<close> of section 4.1, missing with the
  engine: \<open>DimensionMismatch\<close> when \<open>D\<close> is established and the length differs,
  \<open>DuplicateId\<close> when the id is present, and otherwise the entry is stored with its norm.\<close>

definition index_insert :: "vector_index \<Rightarrow> int \<Rightarrow> real list \<Rightarrow> index_error + vector_index" where
  "index_insert idx i v =
     (if index_dim idx \<noteq> None \<and> index_dim idx \<noteq> Some (length v) then Inl DimensionMismatch
      else if i \<in> set (map entry_id (index_entries idx)) then Inl DuplicateId
      else Inr \<lparr>index_dim = Some (length v),
                index_entries =
                  index_entries idx @ [\<lparr>entry_id = i, entry_vector = v, entry_norm = l2_norm v\<rparr>]\<rparr>)"

text \<open>Modelled from the spec: \<open>remove(id)\<close> of section 4.1, missing with the engine:
  \<open>NotFound\<close> when the id is absent.\<close>

definition index_remove :: "vector_index \<Rightarrow> int \<Rightarrow> index_error + vector_index" where
  "index_remove idx i =
     (if i \<notin> set (map entry_id (index_entries idx)) then Inl NotFound
      else Inr (idx\<lparr>index_entries := filter (\<lambda>e. entry_id e \<noteq> i) (index_entries idx)\<rparr>))"

text \<open>Modelled from the spec: the ranking order of section 4.1, descending similarity
  with ties broken by ascending id, as a sort key under the lexicographic order of pairs;
  the engine's comparison is missing.\<close>

definition rank_key :: "int \<times> real \<Rightarrow> real \<times> int" where
  "rank_key r = (- snd r, fst r)"

text \<open>Modelled from the spec: \<open>a\<close> may stand before \<open>b\<close> in a result, in the words of
  section 4.1; missing with the engine.\<close>

definition ranks_before :: "int \<times> real \<Rightarrow> int \<times> real \<Rightarrow> bool" where
  "ranks_before a b \<longleftrightarrow> snd a > snd b \<or> (snd a = snd b \<and> fst a \<le> fst b)"

text \<open>Modelled from the spec: the linear scan of section 4.1, missing with the engine:
  every live entry with its similarity to the query, the norm of the query computed once
  and the norm of the entry read from its cache.\<close>

definition index_scores :: "vector_index \<Rightarrow> real list \<Rightarrow> (int \<times> real) list" where
  "index_scores idx q =
     map (\<lambda>e. (entry_id e, similarity_of q (l2_norm q) (entry_vector e) (entry_norm e)))
       (index_entries idx)"

text \<open>Modelled from the spec: \<open>search(query_vector, k)\<close> of section 4.1, the brute-force
  scan that the section names as the reference algorithm; the engine's code is missing.
  It fails with \<open>DimensionMismatch\<close> when the query length differs from \<open>D\<close>, and
  otherwise returns the first \<open>k\<close> scored entries in ranking order.\<close>

definition index_search :: "vector_index \<Rightarrow> real list \<Rightarrow> nat \<Rightarrow> index_error + (int \<times> real) list" where
  "index_search idx q k =
     (if index_dim idx \<noteq> None \<and> index_dim idx \<noteq> Some (length q) then Inl DimensionMismatch
      else Inr (take k (sort_key rank_key (index_scores idx q))))"

text \<open>Modelled from the spec: the invariants of section 3 on the Vector Index (no two
  entries with one id, every stored vector of dimension \<open>D\<close>) and the cached norm being
  the vector's norm; the engine's code is missing.\<close>

definition index_ok :: "vector_index \<Rightarrow> bool" where
  "index_ok idx \<longleftrightarrow>
     distinct (map entry_id (index_entries idx)) \<and>
     list_all (\<lambda>e. index_dim idx = Some (length (entry_vector e)) \<and>
                   entry_norm e = l2_norm (entry_vector e)) (index_entries idx)"

text \<open>
  The index of the scenario of section 8 of the specification, ids 1, 2 and 3, with the
  vector \<open>[3, 4]\<close> (of norm 5 and cosine 0.6 to \<open>[1, 0]\<close>) in the place of
  \<open>[0.7, 0.7]\<close>.
\<close>

definition example_index :: vector_index where
  "example_index =
     \<lparr>index_dim = Some 2,
      index_entries =
        [\<lparr>entry_id = 1, entry_vector = [1, 0], entry_norm = 1\<rparr>,
         \<lparr>entry_id = 2, entry_vector = [0, 1], entry_norm = 1\<rparr>,
         \<lparr>entry_id = 3, entry_vector = [3, 4], entry_norm = 5\<rparr>]\<rparr>"

section \<open>Properties of the platform functions\<close>

declare digits.simps [simp del]

lemma hex_digit_unescaped: "d < 16 \<Longrightarrow> hex_digit d \<in> set unescapedSet"
proof -
  assume "d < 16"
  then have "d = 0 \<or> d = 1 \<or> d = 2 \<or> d = 3 \<or> d = 4 \<or> d = 5 \<or> d = 6 \<or> d = 7 \<or> d = 8
    \<or> d = 9 \<or> d = 10 \<or> d = 11 \<or> d = 12 \<or> d = 13 \<or> d = 14 \<or> d = 15" by arith
  then show ?thesis
    by (auto simp: hex_digit_def unescapedSet_def)
qed

lemma utf8_octets_bound: "cp < 0x110000 \<Longrightarrow> b \<in> set (utf8_octets cp) \<Longrightarrow> b < 256"
  by (auto simp: utf8_octets_def split: if_splits)

lemma percent_octet_chars: "b < 256 \<Longrightarrow> set (percent_octet b) \<subseteq> url_chars"
  by (simp add: percent_octet_def url_chars_def hex_digit_unescaped less_mult_imp_div_less)

lemma percent_encode_chars: "cp < 0x110000 \<Longrightarrow> set (percent_encode cp) \<subseteq> url_chars"
  using utf8_octets_bound percent_octet_chars by (fastforce simp: percent_encode_def)

lemma code_unit_bound: "unat (c :: 16 word) < 0x110000"
proof -
  have "unat c < 2 ^ 16" using unsigned_less [of c] by simp
  then show ?thesis by simp
qed

lemma surrogate_pair_bound:
  "is_leading_surrogate c \<Longrightarrow> is_trailing_surrogate d \<Longrightarrow>
   surrogate_pair_to_code_point c d < 0x110000"
proof -
  assume "is_leading_surrogate c" and "is_trailing_surrogate d"
  then have "unat c \<le> 0xDBFF" and "unat d \<le> 0xDFFF"
    by (simp_all add: is_leading_surrogate_def is_trailing_surrogate_def)
  moreover have "\<And>x::nat. x \<le> 0xDBFF \<Longrightarrow> x - 0xD800 \<le> 1023"
    and "\<And>x::nat. x \<le> 0xDFFF \<Longrightarrow> x - 0xDC00 \<le> 1023"
    by arith+
  ultimately have "unat c - 0xD800 \<le> 1023" and "unat d - 0xDC00 \<le> 1023"
    by blast+
  then have "(unat c - 0xD800) * 0x400 + (unat d - 0xDC00) \<le> 1023 * 0x400 + 1023"
    by (intro add_mono mult_le_mono1)
  then show ?thesis
    by (simp add: surrogate_pair_to_code_point_def)
qed

lemma then_append_Inr: "then_append s r = Inr t \<longleftrightarrow> (\<exists>u. r = Inr u \<and> t = s @ u)"
  by (auto simp: then_append_def split: sum.splits)

lemma then_append_succeeds: "(\<exists>t. then_append s r = Inr t) \<longleftrightarrow> (\<exists>u. r = Inr u)"
  by (auto simp: then_append_def split: sum.splits)

lemma encodeURIComponent_chars: "encodeURIComponent q = Inr e \<Longrightarrow> set e \<subseteq> url_chars"
proof (induction q arbitrary: e rule: encodeURIComponent.induct)
  case 1
  then show ?case by simp
next
  case (2 c)
  then show ?case
    using percent_encode_chars [OF code_unit_bound, of c]
    by (auto simp: is_unescaped_def url_chars_def split: if_splits)
next
  case (3 c d ds)
  show ?case
  proof (cases "is_unescaped c")
    case True
    with 3 show ?thesis
      by (auto simp: then_append_Inr is_unescaped_def url_chars_def)
  next
    case False
    note nu = this
    show ?thesis
    proof (cases "is_leading_surrogate c")
      case True
      with 3 nu show ?thesis
        using percent_encode_chars [OF surrogate_pair_bound, of c d]
        by (auto simp: then_append_Inr split: if_splits)
    next
      case False
      with 3 nu show ?thesis
        using percent_encode_chars [OF code_unit_bound, of c]
        by (auto simp: then_append_Inr split: if_splits)
    qed
  qed
qed

lemma encodeURIComponent_no_separator:
  "encodeURIComponent q = Inr e \<Longrightarrow>
   CHR ''&'' \<notin> set e \<and> CHR ''='' \<notin> set e \<and> CHR ''?'' \<notin> set e \<and> CHR ''#'' \<notin> set e \<and>
   CHR ''/'' \<notin> set e"
  using encodeURIComponent_chars [of q e] by (auto simp: url_chars_def unescapedSet_def)

text \<open>The unescaped characters are ASCII, so none of them is a surrogate.\<close>

lemma unescaped_not_surrogate:
  "is_unescaped c \<Longrightarrow> \<not> is_leading_surrogate c \<and> \<not> is_trailing_surrogate c"
  by (simp add: is_unescaped_def is_leading_surrogate_def is_trailing_surrogate_def)

text \<open>\<open>encodeURIComponent\<close> returns exactly on the well-formed strings.\<close>

lemma encodeURIComponent_succeeds_iff:
  "(\<exists>e. encodeURIComponent q = Inr e) \<longleftrightarrow> isWellFormed q"
proof (induction q rule: encodeURIComponent.induct)
  case 1
  show ?case by simp
next
  case (2 c)
  show ?case using unescaped_not_surrogate [of c] by auto
next
  case (3 c d ds)
  show ?case
  proof (cases "is_unescaped c")
    case True
    with 3 show ?thesis
      using unescaped_not_surrogate [of c] by (simp add: then_append_succeeds)
  next
    case False
    with 3 show ?thesis
      by (auto simp: then_append_succeeds is_leading_surrogate_def is_trailing_surrogate_def)
  qed
qed

lemma encodeURIComponent_fails:
  "\<not> isWellFormed q \<Longrightarrow> encodeURIComponent q = Inl malformed"
proof (induction q rule: encodeURIComponent.induct)
  case 1
  then show ?case by simp
next
  case (2 c)
  then show ?case using unescaped_not_surrogate [of c] by auto
next
  case (3 c d ds)
  then show ?case
    using unescaped_not_surrogate [of c]
    by (auto simp: then_append_def split: if_splits)
qed

text \<open>The facts that evaluate \<open>encodeURIComponent\<close> on a literal.\<close>

lemmas encode_eval =
  js_def is_unescaped_def is_leading_surrogate_def is_trailing_surrogate_def unescapedSet_def
  char_of_eq_iff then_append_def percent_encode_def utf8_octets_def percent_octet_def
  hex_digit_def surrogate_pair_to_code_point_def

lemma encodeURIComponent_examples:
  "encodeURIComponent (js ''a cat'') = Inr ''a%20cat''"
  "encodeURIComponent [0xE9] = Inr ''%C3%A9''"
  "encodeURIComponent [0x20AC] = Inr ''%E2%82%AC''"
  "encodeURIComponent [0xD83D, 0xDE00] = Inr ''%F0%9F%98%80''"
  "encodeURIComponent [0xD800] = Inl (URIError ''URI malformed'')"
  by (simp_all add: encode_eval malformed_def)

lemma split_on_single: "d \<notin> set a \<Longrightarrow> split_on d a = [a]"
  by (induction a) auto

lemma split_on_append: "d \<notin> set a \<Longrightarrow> split_on d (a @ d # rest) = a # split_on d rest"
  by (induction a) auto

lemma query_params_search:
  assumes "CHR ''&'' \<notin> set q" and "CHR ''&'' \<notin> set k"
  shows "query_params (''http://localhost:5000/search?query='' @ q @ ''&top_k='' @ k)
           = [(''query'', q), (''top_k'', k)]"
proof -
  have "split_on CHR ''&'' ((''query='' @ q) @ CHR ''&'' # (''top_k='' @ k))
          = (''query='' @ q) # split_on CHR ''&'' (''top_k='' @ k)"
    using assms(1) by (intro split_on_append) simp
  moreover have "split_on CHR ''&'' (''top_k='' @ k) = [''top_k='' @ k]"
    using assms(2) by (intro split_on_single) simp
  ultimately show ?thesis
    by (simp add: query_params_def key_value_def)
qed

subsection \<open>Numbers in the URL\<close>

declare bit_length.simps [simp del]

lemma Number_toString_5: "Number_toString 5 = ''5''"
  by (simp add: Number_toString_def number_digits_def digits.simps digit_char_def)

lemma Number_toString_7: "Number_toString 7 = ''7''"
  by (simp add: Number_toString_def number_digits_def digits.simps digit_char_def)

text \<open>Reading gives back what \<open>digits\<close> writes.\<close>

lemma digit_char_range: "d < 10 \<Longrightarrow> digit_char d \<in> set ''0123456789''"
  unfolding digit_char_def by (rule nth_mem) simp

lemma digit_value_digit_char: "d < 10 \<Longrightarrow> digit_value (digit_char d) = Some d"
proof -
  assume "d < 10"
  then have "d = 0 \<or> d = 1 \<or> d = 2 \<or> d = 3 \<or> d = 4 \<or> d = 5 \<or> d = 6 \<or> d = 7 \<or> d = 8
    \<or> d = 9" by arith
  then show ?thesis
    by (auto simp: digit_value_def digit_char_def)
qed

lemma read_digits_snoc:
  "read_digits acc (s @ [c]) =
     (case read_digits acc s of
        None \<Rightarrow> None
      | Some a \<Rightarrow> (case digit_value c of None \<Rightarrow> None | Some d \<Rightarrow> Some (10 * a + d)))"
  by (induction s arbitrary: acc) (auto split: option.splits)

lemma read_digits_digits: "read_digits 0 (digits n) = Some n"
proof (induction n rule: digits.induct)
  case (1 n)
  show ?case
  proof (cases "n < 10")
    case True
    then show ?thesis
      by (simp add: digits.simps [of n] digit_value_digit_char)
  next
    case False
    with 1 have "read_digits 0 (digits (n div 10)) = Some (n div 10)"
      by simp
    with False show ?thesis
      by (simp add: digits.simps [of n] read_digits_snoc digit_value_digit_char)
  qed
qed

lemma digits_chars: "set (digits n) \<subseteq> set ''0123456789''"
proof (induction n rule: digits.induct)
  case (1 n)
  show ?case
  proof (cases "n < 10")
    case True
    then show ?thesis
      using digit_char_range [of n] by (simp add: digits.simps [of n])
  next
    case False
    with 1 have "set (digits (n div 10)) \<subseteq> set ''0123456789''"
      by simp
    with False show ?thesis
      using digit_char_range [of "n mod 10"] by (simp add: digits.simps [of n])
  qed
qed

lemma digits_not_empty: "digits n \<noteq> []"
  by (simp add: digits.simps [of n])

lemma read_decimal_digits: "read_decimal (digits n) = Some (int n)"
proof -
  obtain c cs where split: "digits n = c # cs"
    using digits_not_empty [of n] by (cases "digits n") auto
  then have "c \<in> set ''0123456789''"
    using digits_chars [of n] by auto
  then have "c \<noteq> CHR ''-''"
    by auto
  then show ?thesis
    using read_digits_digits [of n] by (simp add: read_decimal_def split)
qed

lemma read_decimal_minus_digits: "read_decimal (CHR ''-'' # digits n) = Some (- int n)"
  using read_digits_digits [of n] digits_not_empty [of n] by (simp add: read_decimal_def)

text \<open>A safe integer is printed digit by digit, and reading the digits gives it back.\<close>

lemma Number_toString_safe:
  assumes "isSafeInteger n"
  shows "Number_toString n = (if n < 0 then CHR ''-'' # digits (nat (- n)) else digits (nat n))"
proof -
  from assms have "nat (- n) < 2 ^ 53" and "nat n < 2 ^ 53"
    by (simp_all add: isSafeInteger_def)
  then show ?thesis
    by (simp add: Number_toString_def number_digits_def)
qed

lemma read_decimal_Number_toString:
  assumes "isSafeInteger n"
  shows "read_decimal (Number_toString n) = Some n"
  by (simp add: Number_toString_safe [OF assms] read_decimal_digits read_decimal_minus_digits)

text \<open>
  From \<open>2^53\<close> on the string of a number is the shortest decimal that denotes the same
  double, padded by zeros, and in exponent form from \<open>10^21\<close> on: not the decimal numeral of
  the integer.
\<close>

lemma bit_length_eq: "2 ^ k \<le> n \<Longrightarrow> n < 2 ^ Suc k \<Longrightarrow> bit_length n = Suc k"
proof (induction k arbitrary: n)
  case 0
  then have "n = 1" by simp
  then show ?case by (simp add: bit_length.simps)
next
  case (Suc k)
  then have "2 ^ k \<le> n div 2" and "n div 2 < 2 ^ Suc k" and "n \<noteq> 0"
    by auto
  with Suc.IH [of "n div 2"] show ?case
    by (simp add: bit_length.simps [of n])
qed

lemma digits_2_60:
  "digits 1152921504606846976 = ''1152921504606846976''"
  "digits 1152921504606847000 = ''1152921504606847000''"
  by (simp_all add: digits.simps digit_char_def)

lemma Number_toString_2_60: "Number_toString (2 ^ 60) = ''1152921504606847000''"
  by (simp add: Number_toString_def number_digits_def round_to_double_def shortest_decimal_def
      pick_decimal_def format_decimal_def Let_def digits_2_60
      bit_length_eq [where k = 59] bit_length_eq [where k = 60])

lemma Number_toString_10_21: "Number_toString (10 ^ 21) = ''1e+21''"
  by (simp add: Number_toString_def number_digits_def round_to_double_def shortest_decimal_def
      pick_decimal_def format_decimal_def strip_zeros_def digits.simps digit_char_def Let_def
      bit_length_eq [where k = 69] bit_length_eq [where k = 70])

section \<open>The requests of the API functions\<close>

lemma fetchImages_requests:
  "fst (fetchImages fetch) =
     [\<lparr>req_method = GET, req_url = ''http://localhost:5000/list_images'', req_body = None\<rparr>]"
  by (simp add: fetchImages_def await_fetch_def API_BASE_def)

lemma searchImages_requests:
  "encodeURIComponent query = Inr q \<Longrightarrow>
   fst (searchImages fetch query topK) =
     [\<lparr>req_method = GET,
       req_url = ''http://localhost:5000/search?query='' @ q @ ''&top_k=''
                   @ Number_toString (case topK of None \<Rightarrow> 5 | Some k \<Rightarrow> k),
       req_body = None\<rparr>]"
  by (simp add: searchImages_def await_fetch_def API_BASE_def Let_def)

lemma searchImages_malformed:
  "\<not> isWellFormed query \<Longrightarrow> searchImages fetch query topK = ([], Inl malformed)"
  by (simp add: searchImages_def encodeURIComponent_fails Let_def)

lemma addImage_requests:
  "fst (addImage fetch file desc) =
     [\<lparr>req_method = POST, req_url = ''http://localhost:5000/add_image'',
       req_body = Some [(''image'', FileValue file), (''description'', TextValue desc)]\<rparr>]"
  by (simp add: addImage_def await_fetch_def API_BASE_def append_entry_def Let_def)

lemma downloadImage_requests:
  "fst (downloadImage fetch imageId) =
     [\<lparr>req_method = GET,
       req_url = ''http://localhost:5000/download_image/'' @ Number_toString imageId,
       req_body = None\<rparr>]"
  by (simp add: downloadImage_def await_fetch_def API_BASE_def)

lemma endpoints_of_page:
  "map (endpoint API_BASE \<circ> req_url) (fst (fetchImages f1)) = [Some ''list_images'']"
  "map (endpoint API_BASE \<circ> req_url) (fst (searchImages f2 query topK))
     = (if isWellFormed query then [Some ''search''] else [])"
  "map (endpoint API_BASE \<circ> req_url) (fst (addImage f3 file desc)) = [Some ''add_image'']"
  "map (endpoint API_BASE \<circ> req_url) (fst (downloadImage f4 imageId))
     = [Some ''download_image'']"
proof -
  show "map (endpoint API_BASE \<circ> req_url) (fst (fetchImages f1)) = [Some ''list_images'']"
    by (simp add: fetchImages_requests API_BASE_def endpoint_def)
  show "map (endpoint API_BASE \<circ> req_url) (fst (searchImages f2 query topK))
     = (if isWellFormed query then [Some ''search''] else [])"
  proof (cases "isWellFormed query")
    case True
    then obtain e where "encodeURIComponent query = Inr e"
      using encodeURIComponent_succeeds_iff by blast
    with True show ?thesis
      by (simp add: searchImages_requests API_BASE_def endpoint_def)
  next
    case False
    then show ?thesis
      by (simp add: searchImages_malformed)
  qed
  show "map (endpoint API_BASE \<circ> req_url) (fst (addImage f3 file desc)) = [Some ''add_image'']"
    by (simp add: addImage_requests API_BASE_def endpoint_def)
  show "map (endpoint API_BASE \<circ> req_url) (fst (downloadImage f4 imageId))
     = [Some ''download_image'']"
    by (simp add: downloadImage_requests API_BASE_def endpoint_def)
qed

lemma every_call_of_page:
  assumes "r \<in> set (fst (fetchImages f1) @ fst (searchImages f2 query topK)
                   @ fst (addImage f3 file desc) @ fst (downloadImage f4 imageId))"
  shows "endpoint API_BASE (req_url r)
           \<in> {Some ''list_images'', Some ''search'', Some ''add_image'', Some ''download_image''}"
proof -
  let ?e = "endpoint API_BASE \<circ> req_url"
  from assms have "?e r \<in> set (map ?e (fst (fetchImages f1)))
       \<or> ?e r \<in> set (map ?e (fst (searchImages f2 query topK)))
       \<or> ?e r \<in> set (map ?e (fst (addImage f3 file desc)))
       \<or> ?e r \<in> set (map ?e (fst (downloadImage f4 imageId)))"
    by auto
  then show ?thesis
    unfolding endpoints_of_page by (auto split: if_splits)
qed

lemma fetchImages_part000_requests:
  "fst (fetchImages_part000 fetch) =
     [\<lparr>req_method = GET, req_url = ''http://localhost:5000/list_images'', req_body = None\<rparr>]"
  by (simp add: fetchImages_part000_def await_fetch_def API_BASE_part000_def)

lemma searchImages_part000_requests:
  "encodeURIComponent query = Inr q \<Longrightarrow>
   fst (searchImages_part000 fetch query topK) =
     [\<lparr>req_method = GET,
       req_url = ''http://localhost:5000/search?query='' @ q @ ''&top_k=''
                   @ Number_toString (case topK of None \<Rightarrow> 5 | Some k \<Rightarrow> k),
       req_body = None\<rparr>]"
  by (simp add: searchImages_part000_def await_fetch_def API_BASE_part000_def Let_def)

lemma searchImages_part000_malformed:
  "\<not> isWellFormed query \<Longrightarrow> searchImages_part000 fetch query topK = ([], Inl malformed)"
  by (simp add: searchImages_part000_def encodeURIComponent_fails Let_def)

lemma addImage_part000_requests:
  "fst (addImage_part000 fetch file desc) =
     [\<lparr>req_method = POST, req_url = ''http://localhost:5000/add_image'',
       req_body = Some [(''image'', FileValue file), (''description'', TextValue desc)]\<rparr>]"
  by (simp add: addImage_part000_def await_fetch_def API_BASE_part000_def append_entry_def Let_def)

lemma downloadImage_part000_requests:
  "fst (downloadImage_part000 fetch imageId) =
     [\<lparr>req_method = GET,
       req_url = ''http://localhost:5000/download_image/'' @ Number_toString imageId,
       req_body = None\<rparr>]"
  by (simp add: downloadImage_part000_def await_fetch_def API_BASE_part000_def)

lemma endpoints_of_part000:
  "map (endpoint API_BASE_part000 \<circ> req_url) (fst (fetchImages_part000 f1)) = [Some ''list_images'']"
  "map (endpoint API_BASE_part000 \<circ> req_url) (fst (searchImages_part000 f2 query topK))
     = (if isWellFormed query then [Some ''search''] else [])"
  "map (endpoint API_BASE_part000 \<circ> req_url) (fst (addImage_part000 f3 file desc)) = [Some ''add_image'']"
  "map (endpoint API_BASE_part000 \<circ> req_url) (fst (downloadImage_part000 f4 imageId))
     = [Some ''download_image'']"
proof -
  show "map (endpoint API_BASE_part000 \<circ> req_url) (fst (fetchImages_part000 f1)) = [Some ''list_images'']"
    by (simp add: fetchImages_part000_requests API_BASE_part000_def endpoint_def)
  show "map (endpoint API_BASE_part000 \<circ> req_url) (fst (searchImages_part000 f2 query topK))
     = (if isWellFormed query then [Some ''search''] else [])"
  proof (cases "isWellFormed query")
    case True
    then obtain e where "encodeURIComponent query = Inr e"
      using encodeURIComponent_succeeds_iff by blast
    with True show ?thesis
      by (simp add: searchImages_part000_requests API_BASE_part000_def endpoint_def)
  next
    case False
    then show ?thesis
      by (simp add: searchImages_part000_malformed)
  qed
  show "map (endpoint API_BASE_part000 \<circ> req_url) (fst (addImage_part000 f3 file desc)) = [Some ''add_image'']"
    by (simp add: addImage_part000_requests API_BASE_part000_def endpoint_def)
  show "map (endpoint API_BASE_part000 \<circ> req_url) (fst (downloadImage_part000 f4 imageId))
     = [Some ''download_image'']"
    by (simp add: downloadImage_part000_requests API_BASE_part000_def endpoint_def)
qed

lemma every_call_of_part000:
  assumes "r \<in> set (fst (fetchImages_part000 f1) @ fst (searchImages_part000 f2 query topK)
                   @ fst (addImage_part000 f3 file desc) @ fst (downloadImage_part000 f4 imageId))"
  shows "endpoint API_BASE_part000 (req_url r)
           \<in> {Some ''list_images'', Some ''search'', Some ''add_image'', Some ''download_image''}"
proof -
  let ?e = "endpoint API_BASE_part000 \<circ> req_url"
  from assms have "?e r \<in> set (map ?e (fst (fetchImages_part000 f1)))
       \<or> ?e r \<in> set (map ?e (fst (searchImages_part000 f2 query topK)))
       \<or> ?e r \<in> set (map ?e (fst (addImage_part000 f3 file desc)))
       \<or> ?e r \<in> set (map ?e (fst (downloadImage_part000 f4 imageId)))"
    by auto
  then show ?thesis
    unfolding endpoints_of_part000 by (auto split: if_splits)
qed

section \<open>The claims about the API layer\<close>

text \<open>
  Claim C1.  Every network call made by \<open>fetchImages\<close>, \<open>searchImages\<close>, \<open>addImage\<close> and
  \<open>downloadImage\<close>, in either file, goes to one of the four endpoints \<open>list_images\<close>,
  \<open>search\<close>, \<open>add_image\<close> and \<open>download_image\<close> under \<open>API_BASE\<close>: each function issues
  one request, to its own endpoint (\<open>searchImages\<close> none at all when the query text is
  not well-formed UTF-16).
\<close>

theorem client_calls_four_endpoints:
  "(\<forall>r \<in> set (fst (fetchImages f1) @ fst (searchImages f2 query topK)
                 @ fst (addImage f3 file desc) @ fst (downloadImage f4 imageId)).
      endpoint API_BASE (req_url r)
        \<in> {Some ''list_images'', Some ''search'', Some ''add_image'', Some ''download_image''})
   \<and> (\<forall>r \<in> set (fst (fetchImages_part000 f1) @ fst (searchImages_part000 f2 query topK)
                 @ fst (addImage_part000 f3 file desc) @ fst (downloadImage_part000 f4 imageId)).
      endpoint API_BASE_part000 (req_url r)
        \<in> {Some ''list_images'', Some ''search'', Some ''add_image'', Some ''download_image''})
   \<and> map (endpoint API_BASE \<circ> req_url) (fst (fetchImages f1)) = [Some ''list_images'']
   \<and> map (endpoint API_BASE \<circ> req_url) (fst (searchImages f2 query topK))
       = (if isWellFormed query then [Some ''search''] else [])
   \<and> map (endpoint API_BASE \<circ> req_url) (fst (addImage f3 file desc)) = [Some ''add_image'']
   \<and> map (endpoint API_BASE \<circ> req_url) (fst (downloadImage f4 imageId))
       = [Some ''download_image'']
   \<and> map (endpoint API_BASE_part000 \<circ> req_url) (fst (fetchImages_part000 f1))
       = [Some ''list_images'']
   \<and> map (endpoint API_BASE_part000 \<circ> req_url) (fst (searchImages_part000 f2 query topK))
       = (if isWellFormed query then [Some ''search''] else [])
   \<and> map (endpoint API_BASE_part000 \<circ> req_url) (fst (addImage_part000 f3 file desc))
       = [Some ''add_image'']
   \<and> map (endpoint API_BASE_part000 \<circ> req_url) (fst (downloadImage_part000 f4 imageId))
       = [Some ''download_image'']"
proof -
  have page: "\<forall>r \<in> set (fst (fetchImages f1) @ fst (searchImages f2 query topK)
                 @ fst (addImage f3 file desc) @ fst (downloadImage f4 imageId)).
      endpoint API_BASE (req_url r)
        \<in> {Some ''list_images'', Some ''search'', Some ''add_image'', Some ''download_image''}"
    using every_call_of_page by blast
  have part000: "\<forall>r \<in> set (fst (fetchImages_part000 f1) @ fst (searchImages_part000 f2 query topK)
                 @ fst (addImage_part000 f3 file desc) @ fst (downloadImage_part000 f4 imageId)).
      endpoint API_BASE_part000 (req_url r)
        \<in> {Some ''list_images'', Some ''search'', Some ''add_image'', Some ''download_image''}"
    using every_call_of_part000 by blast
  show ?thesis
    by (intro conjI) (rule page part000 endpoints_of_page endpoints_of_part000)+
qed

theorem client_calls_four_endpoints_witness:
  "endpoint API_BASE
     (req_url \<lparr>req_method = GET,
        req_url = ''http://localhost:5000/search?query=a%20cat&top_k=5'', req_body = None\<rparr>)
     \<in> {Some ''list_images'', Some ''search'', Some ''add_image'', Some ''download_image''}
   \<and> endpoint API_BASE_part000
     (req_url \<lparr>req_method = GET,
        req_url = ''http://localhost:5000/download_image/7'', req_body = None\<rparr>)
     \<in> {Some ''list_images'', Some ''search'', Some ''add_image'', Some ''download_image''}"
proof -
  let ?f1 = "(\<lambda>r. Inl (TypeError ''Failed to fetch'')) :: Image list fetch"
  let ?f2 = "(\<lambda>r. Inl (TypeError ''Failed to fetch'')) :: SearchResult list fetch"
  let ?f3 = "(\<lambda>r. Inl (TypeError ''Failed to fetch'')) :: Image fetch"
  let ?f4 = "(\<lambda>r. Inl (TypeError ''Failed to fetch'')) :: unit fetch"
  let ?file = "\<lparr>file_name = ''cat.jpg'', file_bytes = [0xFF, 0xD8]\<rparr>"
  let ?search = "\<lparr>req_method = GET,
    req_url = ''http://localhost:5000/search?query=a%20cat&top_k=5'', req_body = None\<rparr>"
  let ?download = "\<lparr>req_method = GET,
    req_url = ''http://localhost:5000/download_image/7'', req_body = None\<rparr>"
  note inst = client_calls_four_endpoints [of ?f1 ?f2 "js ''a cat''" None ?f3 ?file "[]" ?f4 7]
  have enc: "encodeURIComponent (js ''a cat'') = Inr ''a%20cat''"
    by (rule encodeURIComponent_examples)
  have seven: "Number_toString 7 = ''7''"
    by (simp add: Number_toString_def number_digits_def digits.simps digit_char_def)
  have "?search \<in> set (fst (fetchImages ?f1) @ fst (searchImages ?f2 (js ''a cat'') None)
                 @ fst (addImage ?f3 ?file []) @ fst (downloadImage ?f4 7))"
    by (simp add: searchImages_requests [OF enc] Number_toString_5)
  with inst [THEN conjunct1]
  have page: "endpoint API_BASE (req_url ?search)
     \<in> {Some ''list_images'', Some ''search'', Some ''add_image'', Some ''download_image''}"
    by (rule bspec)
  have "?download \<in> set (fst (fetchImages_part000 ?f1)
                 @ fst (searchImages_part000 ?f2 (js ''a cat'') None)
                 @ fst (addImage_part000 ?f3 ?file []) @ fst (downloadImage_part000 ?f4 7))"
    by (simp add: downloadImage_part000_requests seven)
  with inst [THEN conjunct2, THEN conjunct1]
  have part000: "endpoint API_BASE_part000 (req_url ?download)
     \<in> {Some ''list_images'', Some ''search'', Some ''add_image'', Some ''download_image''}"
    by (rule bspec)
  from page part000 show ?thesis
    by (rule conjI)
qed

text \<open>
  Claim C2, as amended.  For every search call that supplies no \<open>topK\<close> and whose query
  text is well-formed UTF-16 (no unpaired surrogate), \<open>encodeURIComponent\<close> returns, and
  \<open>searchImages\<close> issues one GET request whose URL carries exactly two query parameters:
  \<open>query\<close>, the URL-encoded text, and \<open>top_k\<close>, the default \<open>5\<close>; the call is the call
  with \<open>topK = 5\<close>.  For every query text with an unpaired surrogate, \<open>encodeURIComponent\<close>
  throws \<open>URIError\<close>, and the call ends by that error with no request sent.  Both hold in
  both files.
\<close>

theorem searchImages_default_top_k:
  "(isWellFormed query \<longrightarrow>
      (\<exists>q. encodeURIComponent query = Inr q
        \<and> fst (searchImages fetch query None) =
            [\<lparr>req_method = GET, req_url = API_BASE @ ''/search?query='' @ q @ ''&top_k=5'',
              req_body = None\<rparr>]
        \<and> query_params (API_BASE @ ''/search?query='' @ q @ ''&top_k=5'')
            = [(''query'', q), (''top_k'', ''5'')]
        \<and> searchImages fetch query None = searchImages fetch query (Some 5)
        \<and> fst (searchImages_part000 fetch query None) =
            [\<lparr>req_method = GET,
              req_url = API_BASE_part000 @ ''/search?query='' @ q @ ''&top_k=5'',
              req_body = None\<rparr>]
        \<and> query_params (API_BASE_part000 @ ''/search?query='' @ q @ ''&top_k=5'')
            = [(''query'', q), (''top_k'', ''5'')]
        \<and> searchImages_part000 fetch query None = searchImages_part000 fetch query (Some 5)))
   \<and> (\<not> isWellFormed query \<longrightarrow>
        encodeURIComponent query = Inl (URIError ''URI malformed'')
        \<and> searchImages fetch query None = ([], Inl (URIError ''URI malformed''))
        \<and> searchImages_part000 fetch query None = ([], Inl (URIError ''URI malformed'')))"
proof (intro conjI impI)
  assume wf: "isWellFormed query"
  then obtain q where q: "encodeURIComponent query = Inr q"
    using encodeURIComponent_succeeds_iff by blast
  then have amp: "CHR ''&'' \<notin> set q"
    using encodeURIComponent_no_separator by blast
  have params: "query_params (''http://localhost:5000/search?query='' @ q @ ''&top_k='' @ ''5'')
      = [(''query'', q), (''top_k'', ''5'')]"
    using amp by (intro query_params_search) simp_all
  have "fst (searchImages fetch query None) =
        [\<lparr>req_method = GET, req_url = API_BASE @ ''/search?query='' @ q @ ''&top_k=5'',
          req_body = None\<rparr>]"
    by (simp add: searchImages_requests [OF q] Number_toString_5 API_BASE_def)
  moreover have "fst (searchImages_part000 fetch query None) =
        [\<lparr>req_method = GET, req_url = API_BASE_part000 @ ''/search?query='' @ q @ ''&top_k=5'',
          req_body = None\<rparr>]"
    by (simp add: searchImages_part000_requests [OF q] Number_toString_5 API_BASE_part000_def)
  moreover have "searchImages fetch query None = searchImages fetch query (Some 5)"
    by (simp add: searchImages_def)
  moreover have "searchImages_part000 fetch query None = searchImages_part000 fetch query (Some 5)"
    by (simp add: searchImages_part000_def)
  moreover have "query_params (API_BASE @ ''/search?query='' @ q @ ''&top_k=5'')
        = [(''query'', q), (''top_k'', ''5'')]"
    using params by (simp add: API_BASE_def)
  moreover have "query_params (API_BASE_part000 @ ''/search?query='' @ q @ ''&top_k=5'')
        = [(''query'', q), (''top_k'', ''5'')]"
    using params by (simp add: API_BASE_part000_def)
  ultimately show "\<exists>q. encodeURIComponent query = Inr q
        \<and> fst (searchImages fetch query None) =
            [\<lparr>req_method = GET, req_url = API_BASE @ ''/search?query='' @ q @ ''&top_k=5'',
              req_body = None\<rparr>]
        \<and> query_params (API_BASE @ ''/search?query='' @ q @ ''&top_k=5'')
            = [(''query'', q), (''top_k'', ''5'')]
        \<and> searchImages fetch query None = searchImages fetch query (Some 5)
        \<and> fst (searchImages_part000 fetch query None) =
            [\<lparr>req_method = GET,
              req_url = API_BASE_part000 @ ''/search?query='' @ q @ ''&top_k=5'',
              req_body = None\<rparr>]
        \<and> query_params (API_BASE_part000 @ ''/search?query='' @ q @ ''&top_k=5'')
            = [(''query'', q), (''top_k'', ''5'')]
        \<and> searchImages_part000 fetch query None = searchImages_part000 fetch query (Some 5)"
    using q by blast
next
  assume "\<not> isWellFormed query"
  then show "encodeURIComponent query = Inl (URIError ''URI malformed'')"
    by (simp add: encodeURIComponent_fails malformed_def)
next
  assume "\<not> isWellFormed query"
  then show "searchImages fetch query None = ([], Inl (URIError ''URI malformed''))"
    by (simp add: searchImages_malformed malformed_def)
next
  assume "\<not> isWellFormed query"
  then show "searchImages_part000 fetch query None = ([], Inl (URIError ''URI malformed''))"
    by (simp add: searchImages_part000_malformed malformed_def)
qed

theorem searchImages_default_top_k_witness:
  "fst (searchImages (\<lambda>r. Inl (TypeError ''Failed to fetch'')) (js ''a cat'') None) =
     [\<lparr>req_method = GET, req_url = ''http://localhost:5000/search?query=a%20cat&top_k=5'',
       req_body = None\<rparr>]
   \<and> query_params ''http://localhost:5000/search?query=a%20cat&top_k=5''
       = [(''query'', ''a%20cat''), (''top_k'', ''5'')]
   \<and> searchImages_part000 (\<lambda>r. Inl (TypeError ''Failed to fetch'')) [0x61, 0xDC00] None
       = ([], Inl (URIError ''URI malformed''))"
proof -
  have enc: "encodeURIComponent (js ''a cat'') = Inr ''a%20cat''"
    by (rule encodeURIComponent_examples)
  then have "isWellFormed (js ''a cat'')"
    using encodeURIComponent_succeeds_iff by blast
  with searchImages_default_top_k
    [of "js ''a cat''" "\<lambda>r. Inl (TypeError ''Failed to fetch'')"]
  obtain q where "encodeURIComponent (js ''a cat'') = Inr q"
    and "fst (searchImages (\<lambda>r. Inl (TypeError ''Failed to fetch'')) (js ''a cat'') None) =
        [\<lparr>req_method = GET, req_url = API_BASE @ ''/search?query='' @ q @ ''&top_k=5'',
          req_body = None\<rparr>]"
    and "query_params (API_BASE @ ''/search?query='' @ q @ ''&top_k=5'')
        = [(''query'', q), (''top_k'', ''5'')]"
    by blast
  with enc have first:
    "fst (searchImages (\<lambda>r. Inl (TypeError ''Failed to fetch'')) (js ''a cat'') None) =
       [\<lparr>req_method = GET, req_url = ''http://localhost:5000/search?query=a%20cat&top_k=5'',
         req_body = None\<rparr>]
     \<and> query_params ''http://localhost:5000/search?query=a%20cat&top_k=5''
         = [(''query'', ''a%20cat''), (''top_k'', ''5'')]"
    by (simp add: API_BASE_def)
  have "\<not> isWellFormed [0x61, 0xDC00]"
    by (simp add: is_leading_surrogate_def is_trailing_surrogate_def)
  with searchImages_default_top_k
    [of "[0x61, 0xDC00]" "\<lambda>r. Inl (TypeError ''Failed to fetch'')"]
  have "searchImages_part000 (\<lambda>r. Inl (TypeError ''Failed to fetch'')) [0x61, 0xDC00] None
       = ([], Inl (URIError ''URI malformed''))"
    by blast
  with first show ?thesis
    by simp
qed

text \<open>
  Claim C2, the counterexample.  The claim as stated fails on a query text with an
  unpaired surrogate: with the text of the one code unit \<open>0xD800\<close> and no \<open>topK\<close>,
  \<open>encodeURIComponent\<close> throws \<open>URIError\<close> and no request is sent.
\<close>

theorem searchImages_unpaired_surrogate:
  "\<not> isWellFormed [0xD800]
   \<and> searchImages
        (\<lambda>r. Inr \<lparr>resp_ok = True, resp_text = [], resp_json = Inr [], resp_blob = []\<rparr>)
        [0xD800] None
       = ([], Inl (URIError ''URI malformed''))
   \<and> searchImages_part000
        (\<lambda>r. Inr \<lparr>resp_ok = True, resp_text = [], resp_json = Inr [], resp_blob = []\<rparr>)
        [0xD800] None
       = ([], Inl (URIError ''URI malformed''))"
proof -
  have "\<not> isWellFormed [0xD800]"
    by (simp add: is_leading_surrogate_def)
  then show ?thesis
    by (simp add: searchImages_malformed searchImages_part000_malformed malformed_def)
qed

text \<open>
  Claim C3.  Every \<open>addImage\<close> call, in either file, issues one POST request to
  \<open>add_image\<close> whose multipart form holds the file under \<open>image\<close> and then the description,
  empty or not, under \<open>description\<close>; when the response is OK and its body parses, the call
  returns the parsed body, typed \<open>Image\<close> (\<open>id\<close>, \<open>filename\<close>, optional \<open>description\<close>).
\<close>

theorem addImage_contract:
  "fst (addImage fetch file desc) =
     [\<lparr>req_method = POST, req_url = API_BASE @ ''/add_image'',
       req_body = Some [(''image'', FileValue file), (''description'', TextValue desc)]\<rparr>]
   \<and> (\<forall>response image.
        fetch \<lparr>req_method = POST, req_url = API_BASE @ ''/add_image'',
               req_body = Some [(''image'', FileValue file), (''description'', TextValue desc)]\<rparr>
          = Inr response \<and> resp_ok response \<and> resp_json response = Inr (image :: Image)
        \<longrightarrow> snd (addImage fetch file desc) = Inr image)
   \<and> fst (addImage_part000 fetch file desc) =
     [\<lparr>req_method = POST, req_url = API_BASE_part000 @ ''/add_image'',
       req_body = Some [(''image'', FileValue file), (''description'', TextValue desc)]\<rparr>]
   \<and> (\<forall>response image.
        fetch \<lparr>req_method = POST, req_url = API_BASE_part000 @ ''/add_image'',
               req_body = Some [(''image'', FileValue file), (''description'', TextValue desc)]\<rparr>
          = Inr response \<and> resp_ok response \<and> resp_json response = Inr (image :: Image)
        \<longrightarrow> snd (addImage_part000 fetch file desc) = Inr image)"
  by (simp add: addImage_def addImage_part000_def await_fetch_def append_entry_def
      handleResponse_def handleResponse_part000_def Let_def)

theorem addImage_contract_witness:
  "snd (addImage
      (\<lambda>r. Inr \<lparr>resp_ok = True, resp_text = [],
                resp_json = Inr \<lparr>image_id = 1, filename = ''cat.jpg'', description = None\<rparr>,
                resp_blob = []\<rparr>)
      \<lparr>file_name = ''cat.jpg'', file_bytes = [0xFF, 0xD8]\<rparr> [])
   = Inr \<lparr>image_id = 1, filename = ''cat.jpg'', description = None\<rparr>"
  using addImage_contract
    [of "\<lambda>r. Inr \<lparr>resp_ok = True, resp_text = [],
                resp_json = Inr \<lparr>image_id = 1, filename = ''cat.jpg'', description = None\<rparr>,
                resp_blob = []\<rparr>"
        "\<lparr>file_name = ''cat.jpg'', file_bytes = [0xFF, 0xD8]\<rparr>" "[]"]
  by simp

text \<open>
  Claim C4, as amended.  For every id, \<open>downloadImage\<close>, in either file, issues one GET
  request, to \<open>download_image/\<close> followed by the string JavaScript gives the id; for every
  id that is a safe integer (of absolute value below \<open>2^53\<close>) that string is the decimal
  numeral of the id, the one that reads back as the id.  On an OK response the call returns
  the blob of the body, whatever the body is (it is not parsed), and on any other response
  it throws an \<open>Error\<close> whose message is the response text, or \<open>Failed to download image\<close>
  when that text is empty, and returns no data.
\<close>

theorem downloadImage_contract:
  "fst (downloadImage fetch imageId) =
     [\<lparr>req_method = GET, req_url = API_BASE @ ''/download_image/'' @ Number_toString imageId,
       req_body = None\<rparr>]
   \<and> (isSafeInteger imageId \<longrightarrow>
        Number_toString imageId
          = (if imageId < 0 then CHR ''-'' # digits (nat (- imageId)) else digits (nat imageId))
        \<and> read_decimal (Number_toString imageId) = Some imageId)
   \<and> (\<forall>response.
        fetch \<lparr>req_method = GET,
               req_url = API_BASE @ ''/download_image/'' @ Number_toString imageId,
               req_body = None\<rparr> = Inr response
        \<longrightarrow> snd (downloadImage fetch imageId) =
              (if resp_ok response then Inr (resp_blob response)
               else Inl (Error (if resp_text response = [] then ''Failed to download image''
                                else resp_text response))))
   \<and> fst (downloadImage_part000 fetch imageId) =
     [\<lparr>req_method = GET,
       req_url = API_BASE_part000 @ ''/download_image/'' @ Number_toString imageId,
       req_body = None\<rparr>]
   \<and> (\<forall>response.
        fetch \<lparr>req_method = GET,
               req_url = API_BASE_part000 @ ''/download_image/'' @ Number_toString imageId,
               req_body = None\<rparr> = Inr response
        \<longrightarrow> snd (downloadImage_part000 fetch imageId) =
              (if resp_ok response then Inr (resp_blob response)
               else Inl (Error (if resp_text response = [] then ''Failed to download image''
                                else resp_text response))))"
proof -
  have "isSafeInteger imageId \<longrightarrow>
        Number_toString imageId
          = (if imageId < 0 then CHR ''-'' # digits (nat (- imageId)) else digits (nat imageId))
        \<and> read_decimal (Number_toString imageId) = Some imageId"
    using Number_toString_safe [of imageId] read_decimal_Number_toString [of imageId]
    by blast
  moreover have "fst (downloadImage fetch imageId) =
     [\<lparr>req_method = GET, req_url = API_BASE @ ''/download_image/'' @ Number_toString imageId,
       req_body = None\<rparr>]"
    by (simp add: downloadImage_def await_fetch_def or_else_def Let_def)
  moreover have "\<forall>response.
        fetch \<lparr>req_method = GET,
               req_url = API_BASE @ ''/download_image/'' @ Number_toString imageId,
               req_body = None\<rparr> = Inr response
        \<longrightarrow> snd (downloadImage fetch imageId) =
              (if resp_ok response then Inr (resp_blob response)
               else Inl (Error (if resp_text response = [] then ''Failed to download image''
                                else resp_text response)))"
    by (simp add: downloadImage_def await_fetch_def or_else_def Let_def)
  moreover have "fst (downloadImage_part000 fetch imageId) =
     [\<lparr>req_method = GET,
       req_url = API_BASE_part000 @ ''/download_image/'' @ Number_toString imageId,
       req_body = None\<rparr>]"
    by (simp add: downloadImage_part000_def await_fetch_def or_else_def Let_def)
  moreover have "\<forall>response.
        fetch \<lparr>req_method = GET,
               req_url = API_BASE_part000 @ ''/download_image/'' @ Number_toString imageId,
               req_body = None\<rparr> = Inr response
        \<longrightarrow> snd (downloadImage_part000 fetch imageId) =
              (if resp_ok response then Inr (resp_blob response)
               else Inl (Error (if resp_text response = [] then ''Failed to download image''
                                else resp_text response)))"
    by (simp add: downloadImage_part000_def await_fetch_def or_else_def Let_def)
  ultimately show ?thesis
    by (intro conjI) assumption+
qed

theorem downloadImage_contract_witness:
  "downloadImage
      (\<lambda>r. Inr \<lparr>resp_ok = True, resp_text = ''not json'',
                resp_json = (Inl ''Unexpected token'' :: string + unit), resp_blob = [0xFF, 0xD8]\<rparr>) 7
     = ([\<lparr>req_method = GET, req_url = ''http://localhost:5000/download_image/7'',
          req_body = None\<rparr>], Inr [0xFF, 0xD8])
   \<and> read_decimal ''7'' = Some 7
   \<and> downloadImage
      (\<lambda>r. Inr \<lparr>resp_ok = False, resp_text = ''Image not found'',
                resp_json = (Inl ''Unexpected token'' :: string + unit), resp_blob = []\<rparr>) 7
     = ([\<lparr>req_method = GET, req_url = ''http://localhost:5000/download_image/7'',
          req_body = None\<rparr>], Inl (Error ''Image not found''))
   \<and> downloadImage_part000
      (\<lambda>r. Inr \<lparr>resp_ok = False, resp_text = [],
                resp_json = (Inl ''Unexpected end of JSON input'' :: string + unit), resp_blob = []\<rparr>) 7
     = ([\<lparr>req_method = GET, req_url = ''http://localhost:5000/download_image/7'',
          req_body = None\<rparr>], Inl (Error ''Failed to download image''))"
proof -
  have safe: "isSafeInteger 7"
    by (simp add: isSafeInteger_def)
  have pair: "\<And>(p :: request list \<times> (js_error + 8 word list)) a b.
      fst p = a \<Longrightarrow> snd p = b \<Longrightarrow> p = (a, b)"
    by auto
  note seven = Number_toString_7
  from downloadImage_contract
    [of "\<lambda>r. Inr \<lparr>resp_ok = True, resp_text = ''not json'',
                resp_json = (Inl ''Unexpected token'' :: string + unit), resp_blob = [0xFF, 0xD8]\<rparr>" 7]
    safe
  have first: "downloadImage
      (\<lambda>r. Inr \<lparr>resp_ok = True, resp_text = ''not json'',
                resp_json = (Inl ''Unexpected token'' :: string + unit), resp_blob = [0xFF, 0xD8]\<rparr>) 7
     = ([\<lparr>req_method = GET, req_url = ''http://localhost:5000/download_image/7'',
          req_body = None\<rparr>], Inr [0xFF, 0xD8])"
    and reads: "read_decimal ''7'' = Some 7"
    by (simp_all add: seven API_BASE_def pair digits.simps digit_char_def)
  from downloadImage_contract
    [of "\<lambda>r. Inr \<lparr>resp_ok = False, resp_text = ''Image not found'',
                resp_json = (Inl ''Unexpected token'' :: string + unit), resp_blob = []\<rparr>" 7]
  have second: "downloadImage
      (\<lambda>r. Inr \<lparr>resp_ok = False, resp_text = ''Image not found'',
                resp_json = (Inl ''Unexpected token'' :: string + unit), resp_blob = []\<rparr>) 7
     = ([\<lparr>req_method = GET, req_url = ''http://localhost:5000/download_image/7'',
          req_body = None\<rparr>], Inl (Error ''Image not found''))"
    by (simp add: seven API_BASE_def pair)
  from downloadImage_contract
    [of "\<lambda>r. Inr \<lparr>resp_ok = False, resp_text = [],
                resp_json = (Inl ''Unexpected end of JSON input'' :: string + unit), resp_blob = []\<rparr>" 7]
  have third: "downloadImage_part000
      (\<lambda>r. Inr \<lparr>resp_ok = False, resp_text = [],
                resp_json = (Inl ''Unexpected end of JSON input'' :: string + unit), resp_blob = []\<rparr>) 7
     = ([\<lparr>req_method = GET, req_url = ''http://localhost:5000/download_image/7'',
          req_body = None\<rparr>], Inl (Error ''Failed to download image''))"
    by (simp add: seven API_BASE_part000_def pair)
  from first reads second third show ?thesis
    by simp
qed

text \<open>
  Claim C4, the counterexample.  The claim as stated fails on an id outside the safe
  integers: for the id \<open>2^60 = 1152921504606846976\<close>, a number JavaScript holds exactly,
  the request goes to \<open>download_image/1152921504606847000\<close>, which names another id.
\<close>

theorem downloadImage_unsafe_id:
  "\<not> isSafeInteger (2 ^ 60)
   \<and> downloadImage
        (\<lambda>r. Inr \<lparr>resp_ok = True, resp_text = [],
                  resp_json = (Inl ''Unexpected token'' :: string + unit),
                  resp_blob = [0xFF, 0xD8]\<rparr>)
        (2 ^ 60)
       = ([\<lparr>req_method = GET,
            req_url = ''http://localhost:5000/download_image/1152921504606847000'',
            req_body = None\<rparr>], Inr [0xFF, 0xD8])
   \<and> downloadImage_part000
        (\<lambda>r. Inr \<lparr>resp_ok = True, resp_text = [],
                  resp_json = (Inl ''Unexpected token'' :: string + unit),
                  resp_blob = [0xFF, 0xD8]\<rparr>)
        (2 ^ 60)
       = ([\<lparr>req_method = GET,
            req_url = ''http://localhost:5000/download_image/1152921504606847000'',
            req_body = None\<rparr>], Inr [0xFF, 0xD8])
   \<and> read_decimal ''1152921504606847000'' = Some 1152921504606847000
   \<and> (1152921504606847000 :: int) \<noteq> 2 ^ 60"
proof -
  have "read_decimal (digits 1152921504606847000) = Some (int 1152921504606847000)"
    by (rule read_decimal_digits)
  then have "read_decimal ''1152921504606847000'' = Some 1152921504606847000"
    by (simp add: digits_2_60)
  then show ?thesis
    using Number_toString_2_60
    by (simp add: downloadImage_def downloadImage_part000_def await_fetch_def or_else_def
        API_BASE_def API_BASE_part000_def isSafeInteger_def Let_def)
qed

text \<open>
  Claim C8.  The API layers of the two files are the same functions: equal base URL, and
  equal \<open>handleResponse\<close>, \<open>fetchImages\<close>, \<open>searchImages\<close>, \<open>addImage\<close> and \<open>downloadImage\<close>
  (for every input the same requests, with the same URL, method and body, and the same
  result for every answer of the network).
\<close>

theorem api_layers_equal:
  "API_BASE = API_BASE_part000
   \<and> (handleResponse :: 'a response \<Rightarrow> js_error + 'a) = handleResponse_part000
   \<and> fetchImages = fetchImages_part000
   \<and> searchImages = searchImages_part000
   \<and> addImage = addImage_part000
   \<and> (downloadImage :: 'b fetch \<Rightarrow> int \<Rightarrow> 8 word list outcome) = downloadImage_part000"
proof -
  have base: "API_BASE = API_BASE_part000"
    by (simp add: API_BASE_def API_BASE_part000_def)
  have handle: "(handleResponse :: 'c response \<Rightarrow> js_error + 'c) = handleResponse_part000"
    by (rule ext) (simp add: handleResponse_def handleResponse_part000_def)
  have "fetchImages = fetchImages_part000"
    unfolding fetchImages_def fetchImages_part000_def base handle by (rule refl)
  moreover have "searchImages = searchImages_part000"
    unfolding searchImages_def searchImages_part000_def base handle by (rule refl)
  moreover have "addImage = addImage_part000"
    unfolding addImage_def addImage_part000_def base handle by (rule refl)
  moreover have "(downloadImage :: 'b fetch \<Rightarrow> int \<Rightarrow> 8 word list outcome) = downloadImage_part000"
    unfolding downloadImage_def downloadImage_part000_def base by (rule refl)
  ultimately show ?thesis
    using base handle by simp
qed

section \<open>The claims about the component\<close>

lemma js_images_neq_search: "js ''images'' \<noteq> js ''search''"
  by (simp add: js_def)

lemma js_images_not_search: "\<not> prefix [js ''images''] [js ''search'', t]"
  by (simp add: js_images_neq_search)

lemma run_query_requests:
  "requests (run_query key call wrap s)
     = requests s @ concat (replicate (query_attempts call) (fst call))"
  by (simp add: run_query_def Let_def split: sum.splits)

lemma run_query_frame:
  "k \<noteq> key \<Longrightarrow> queryCache (run_query key call wrap s) k = queryCache s k"
  "uploadFile (run_query key call wrap s) = uploadFile s"
  "uploadDescription (run_query key call wrap s) = uploadDescription s"
  "toasts (run_query key call wrap s) = toasts s"
  "searchQueryText (run_query key call wrap s) = searchQueryText s"
  by (simp_all add: run_query_def Let_def split: sum.splits)

lemma addImage_resolves:
  assumes "fetch \<lparr>req_method = POST, req_url = ''http://localhost:5000/add_image'',
             req_body = Some [(''image'', FileValue file), (''description'', TextValue desc)]\<rparr>
           = Inr response"
    and "resp_ok response" and "resp_json response = Inr img"
  shows "snd (addImage fetch file desc) = Inr img"
    and "snd (addImage_part000 fetch file desc) = Inr img"
  using assms
  by (simp_all add: addImage_def addImage_part000_def await_fetch_def append_entry_def
      handleResponse_def handleResponse_part000_def API_BASE_def API_BASE_part000_def Let_def)

text \<open>
  In \<open>page.tsx\<close> every call of a method of \<open>toast\<close> throws, before the statement after it
  runs.
\<close>

lemma toast_page_throws:
  "call_method ''toast'' toast name arg s
     = (s, Some (TypeError (''toast.'' @ name @ '' is not a function'')))"
  by (simp add: call_method_def toast_def)

lemma addImageMutation_onSuccess_page:
  "addImageMutation_onSuccess net s = (s, Some (TypeError ''toast.success is not a function''))"
  by (simp add: addImageMutation_onSuccess_def and_then_def toast_page_throws)

text \<open>
  In \<open>part_000\<close> the invalidation of \<open>['images']\<close> marks the queries under that key and
  fetches the list of images again; the search query has another key and is left alone.
\<close>

lemma invalidate_images_part000:
  "invalidateQueries (observers_part000 net s) [js ''images''] s
     = imagesQuery_refetch_part000 net (mark_invalidated [js ''images''] s)"
  by (simp add: invalidateQueries_def observers_part000_def refetch_matching_def
      imagesQuery_queryKey_part000_def searchResultsQuery_queryKey_part000_def
      js_images_neq_search)

lemma addImageMutation_onSuccess_part000_effect:
  "addImageMutation_onSuccess_part000 net s =
     (setUploadDescription [] (setUploadFile None
        (imagesQuery_refetch_part000 net (mark_invalidated [js ''images'']
           (show_toast Success ''Image added successfully!'' s)))), None)"
  by (simp add: addImageMutation_onSuccess_part000_def and_then_def call_method_def
      toast_part000_def effect_def invalidate_images_part000)

text \<open>
  What \<open>part_000\<close> does after a successful \<open>add_image\<close>: the success notification; the
  query \<open>['images']\<close> invalidated and fetched again, so that it holds the new list, or
  stays marked when that fetch fails; no other cached query touched, none of the search
  results; the file and the description reset.
\<close>

lemma addImageMutation_part000_success:
  assumes "net_add_image net
             \<lparr>req_method = POST, req_url = ''http://localhost:5000/add_image'',
              req_body = Some [(''image'', FileValue file), (''description'', TextValue desc)]\<rparr>
           = Inr response"
    and "resp_ok response" and "resp_json response = Inr img"
  shows "uploadFile (addImageMutation_mutate_part000 net file desc s) = None"
    and "uploadDescription (addImageMutation_mutate_part000 net file desc s) = []"
    and "toasts (addImageMutation_mutate_part000 net file desc s)
           = toasts s @ [(Success, ''Image added successfully!'')]"
    and "queryCache (addImageMutation_mutate_part000 net file desc s) [js ''images'']
           = (case snd (fetchImages_part000 (net_list_images net)) of
                Inr images \<Rightarrow> Some \<lparr>entry_data = Some (ImagesData images), isInvalidated = False\<rparr>
              | Inl e \<Rightarrow> map_option (\<lambda>e. e\<lparr>isInvalidated := True\<rparr>) (queryCache s [js ''images'']))"
    and "\<not> prefix [js ''images''] k \<Longrightarrow>
         queryCache (addImageMutation_mutate_part000 net file desc s) k = queryCache s k"
    and "queryCache (addImageMutation_mutate_part000 net file desc s) [js ''search'', t]
           = queryCache s [js ''search'', t]"
    and "searchQueryText (addImageMutation_mutate_part000 net file desc s) = searchQueryText s"
    and "\<lparr>req_method = GET, req_url = ''http://localhost:5000/list_images'', req_body = None\<rparr>
           \<in> set (requests (addImageMutation_mutate_part000 net file desc s))"
  using addImage_resolves(2) [of "net_add_image net" "file" desc response img, OF assms]
  by (auto simp: addImageMutation_mutate_part000_def mutate_def Let_def
      addImageMutation_onSuccess_part000_effect setUploadDescription_def setUploadFile_def
      imagesQuery_refetch_part000_def imagesQuery_queryKey_part000_def run_query_def
      mark_invalidated_def show_toast_def js_images_neq_search query_attempts_def
      fetchImages_part000_requests split: sum.splits)

text \<open>
  Claim C7, on \<open>src/app/page.tsx\<close>.  After a successful \<open>add_image\<close> mutation the first
  statement of \<open>onSuccess\<close>, \<open>toast.success(...)\<close>, throws; \<open>onError\<close> then throws the same
  way.  The request is the only change of the state: no query is invalidated or fetched
  again, and the upload file and description stay.
\<close>

theorem addImageMutation_page_skips_invalidation:
  assumes "net_add_image net
             \<lparr>req_method = POST, req_url = ''http://localhost:5000/add_image'',
              req_body = Some [(''image'', FileValue file), (''description'', TextValue desc)]\<rparr>
           = Inr response"
    and "resp_ok response" and "resp_json response = Inr img"
  shows "addImageMutation_mutate net file desc s =
           s\<lparr>requests := requests s @
              [\<lparr>req_method = POST, req_url = ''http://localhost:5000/add_image'',
                req_body = Some [(''image'', FileValue file), (''description'', TextValue desc)]\<rparr>]\<rparr>"
  using addImage_resolves(1) [of "net_add_image net" "file" desc response img, OF assms]
  by (simp add: addImageMutation_mutate_def mutate_def Let_def addImageMutation_onSuccess_page
      addImageMutation_onError_def toast_page_throws addImage_requests)

theorem addImageMutation_page_skips_invalidation_witness:
  "(let s1 = addImageMutation_mutate online
               \<lparr>file_name = ''cat.jpg'', file_bytes = [0xFF, 0xD8]\<rparr> ''a cat'' ready_state
    in queryCache s1 [js ''images'']
         = Some \<lparr>entry_data = Some (ImagesData []), isInvalidated = False\<rparr>
       \<and> uploadFile s1 = Some \<lparr>file_name = ''cat.jpg'', file_bytes = [0xFF, 0xD8]\<rparr>
       \<and> uploadDescription s1 = ''a cat''
       \<and> toasts s1 = []
       \<and> requests s1 =
           [\<lparr>req_method = POST, req_url = ''http://localhost:5000/add_image'',
             req_body = Some [(''image'', FileValue \<lparr>file_name = ''cat.jpg'', file_bytes = [0xFF, 0xD8]\<rparr>),
                              (''description'', TextValue ''a cat'')]\<rparr>])"
  using addImageMutation_page_skips_invalidation
    [of online "\<lparr>file_name = ''cat.jpg'', file_bytes = [0xFF, 0xD8]\<rparr>" "''a cat''"
        "\<lparr>resp_ok = True, resp_text = [],
          resp_json = Inr \<lparr>image_id = 1, filename = ''cat.jpg'', description = Some ''a cat''\<rparr>,
          resp_blob = []\<rparr>"
        "\<lparr>image_id = 1, filename = ''cat.jpg'', description = Some ''a cat''\<rparr>"
        ready_state]
  by (simp add: Let_def online_def ready_state_def)

text \<open>
  The search query is gated where it fetches by itself: setting the search text to the
  empty string issues no request, in either file.
\<close>

lemma search_empty_text_disabled:
  "searchQueryText s = [] \<Longrightarrow> \<not> searchResultsQuery_enabled s"
  "searchQueryText s = [] \<Longrightarrow> \<not> searchResultsQuery_enabled_part000 s"
  "requests (searchInput_onChange net [] s) = requests s"
  "requests (searchInput_onChange_part000 net [] s) = requests s"
  by (simp_all add: searchResultsQuery_enabled_def searchResultsQuery_enabled_part000_def
      searchInput_onChange_def searchInput_onChange_part000_def setSearchQueryText_def Let_def)

text \<open>The requests of a click on the Search button while the search text is empty.\<close>

lemma searchButton_empty_text_requests:
  assumes "searchQueryText s = []"
  shows "requests (searchButton_onClick net s) = requests s @
      replicate (query_attempts (searchImages (net_search net) [] None))
        \<lparr>req_method = GET, req_url = ''http://localhost:5000/search?query=&top_k=5'',
         req_body = None\<rparr>"
    and "requests (searchButton_onClick_part000 net s) = requests s @
      replicate (query_attempts (searchImages_part000 (net_search net) [] None))
        \<lparr>req_method = GET, req_url = ''http://localhost:5000/search?query=&top_k=5'',
         req_body = None\<rparr>"
proof -
  have enc: "encodeURIComponent [] = Inr []"
    by simp
  have flat: "\<And>n (r :: request). concat (replicate n [r]) = replicate n r"
    by (induct_tac n) simp_all
  show "requests (searchButton_onClick net s) = requests s @
      replicate (query_attempts (searchImages (net_search net) [] None))
        \<lparr>req_method = GET, req_url = ''http://localhost:5000/search?query=&top_k=5'',
         req_body = None\<rparr>"
    using assms
    by (simp add: searchButton_onClick_def searchResultsQuery_refetch_def
        searchResultsQuery_queryFn_def run_query_requests searchImages_requests [OF enc]
        Number_toString_5 flat)
  show "requests (searchButton_onClick_part000 net s) = requests s @
      replicate (query_attempts (searchImages_part000 (net_search net) [] None))
        \<lparr>req_method = GET, req_url = ''http://localhost:5000/search?query=&top_k=5'',
         req_body = None\<rparr>"
    using assms
    by (simp add: searchButton_onClick_part000_def searchResultsQuery_refetch_part000_def
        searchResultsQuery_queryFn_part000_def run_query_requests
        searchImages_part000_requests [OF enc] Number_toString_5 flat)
qed

lemma query_attempts_cases:
  "query_attempts call = (if (\<exists>d. snd call = Inr d) then 1 else 4)"
  by (simp add: query_attempts_def split: sum.splits)

text \<open>
  Claim C9, the divergence.  With an empty search text the query is disabled, and yet a
  click on the Search button, whose handler calls \<open>refetch()\<close>, sends the request
  \<open>GET /search?query=&top_k=5\<close>, in either file: once when the search resolves (and once
  more for each retry when it rejects).
\<close>

theorem searchButton_empty_text_sends_request:
  assumes "searchQueryText s = []"
  shows "\<not> searchResultsQuery_enabled s
    \<and> \<lparr>req_method = GET, req_url = ''http://localhost:5000/search?query=&top_k=5'',
        req_body = None\<rparr> \<in> set (requests (searchButton_onClick net s))
    \<and> ((\<exists>results. snd (searchImages (net_search net) [] None) = Inr results) \<longrightarrow>
         requests (searchButton_onClick net s) = requests s @
           [\<lparr>req_method = GET, req_url = ''http://localhost:5000/search?query=&top_k=5'',
             req_body = None\<rparr>])
    \<and> \<not> searchResultsQuery_enabled_part000 s
    \<and> \<lparr>req_method = GET, req_url = ''http://localhost:5000/search?query=&top_k=5'',
        req_body = None\<rparr> \<in> set (requests (searchButton_onClick_part000 net s))
    \<and> ((\<exists>results. snd (searchImages_part000 (net_search net) [] None) = Inr results) \<longrightarrow>
         requests (searchButton_onClick_part000 net s) = requests s @
           [\<lparr>req_method = GET, req_url = ''http://localhost:5000/search?query=&top_k=5'',
             req_body = None\<rparr>])"
  using assms
  by (simp add: searchButton_empty_text_requests query_attempts_cases
      searchResultsQuery_enabled_def searchResultsQuery_enabled_part000_def)

theorem searchButton_empty_text_sends_request_witness:
  "requests (searchButton_onClick online initial_state)
     = [\<lparr>req_method = GET, req_url = ''http://localhost:5000/search?query=&top_k=5'',
         req_body = None\<rparr>]
   \<and> \<lparr>req_method = GET, req_url = ''http://localhost:5000/search?query=&top_k=5'',
       req_body = None\<rparr> \<in> set (requests (searchButton_onClick_part000 offline initial_state))"
proof -
  have empty: "searchQueryText initial_state = []"
    by (simp add: initial_state_def)
  have resolves: "\<exists>results. snd (searchImages (net_search online) [] None) = Inr results"
    by (simp add: searchImages_def await_fetch_def handleResponse_def online_def Let_def)
  have none: "requests initial_state = []"
    by (simp add: initial_state_def)
  from searchButton_empty_text_sends_request [OF empty, of online] resolves none
  have "requests (searchButton_onClick online initial_state)
     = [\<lparr>req_method = GET, req_url = ''http://localhost:5000/search?query=&top_k=5'',
         req_body = None\<rparr>]"
    by simp
  moreover from searchButton_empty_text_sends_request [OF empty, of offline]
  have "\<lparr>req_method = GET, req_url = ''http://localhost:5000/search?query=&top_k=5'',
       req_body = None\<rparr> \<in> set (requests (searchButton_onClick_part000 offline initial_state))"
    by blast
  ultimately show ?thesis
    by (rule conjI)
qed

text \<open>
  What \<open>part_000\<close> does when no file is selected: the error notification is the only
  change of the state, and no request is issued.
\<close>

lemma handleUpload_part000_no_file:
  "uploadFile s = None \<Longrightarrow>
   handleUpload_part000 net s
     = (s\<lparr>toasts := toasts s @ [(Failure, ''Please select a file to upload'')]\<rparr>, None)"
  by (simp add: handleUpload_part000_def call_method_def toast_part000_def show_toast_def)

text \<open>
  Claim C10, on \<open>src/app/page.tsx\<close>.  With no file selected \<open>handleUpload\<close> calls
  \<open>toast.error\<close>, which throws: the state is unchanged, so no mutation runs and no request
  is issued, but no notification is shown either, and the handler ends by the \<open>TypeError\<close>
  instead of returning.
\<close>

theorem handleUpload_page_no_file_throws:
  assumes "uploadFile s = None"
  shows "handleUpload net s = (s, Some (TypeError ''toast.error is not a function''))"
  using assms by (simp add: handleUpload_def toast_page_throws)

theorem handleUpload_page_no_file_throws_witness:
  "handleUpload online initial_state
     = (initial_state, Some (TypeError ''toast.error is not a function''))"
proof -
  have "uploadFile initial_state = None"
    by (simp add: initial_state_def)
  then show ?thesis
    by (rule handleUpload_page_no_file_throws)
qed

section \<open>Properties of the vector index\<close>

lemma dot_Nil [simp]: "dot [] v = 0" "dot u [] = 0"
  by (simp_all add: dot_def)

lemma dot_Cons [simp]: "dot (x # u) (y # v) = x * y + dot u v"
  by (simp add: dot_def)

lemma dot_commute: "dot u v = dot v u"
proof (induction u arbitrary: v)
  case Nil
  show ?case by simp
next
  case (Cons x u)
  then show ?case by (cases v) (simp_all add: mult.commute)
qed

lemma dot_self_nonneg: "0 \<le> dot v v"
  by (induction v) simp_all

lemma dot_self_zero_iff: "dot v v = 0 \<longleftrightarrow> (\<forall>x \<in> set v. x = 0)"
proof (induction v)
  case Nil
  show ?case by simp
next
  case (Cons x v)
  have "x * x + dot v v = 0 \<longleftrightarrow> x * x = 0 \<and> dot v v = 0"
    using dot_self_nonneg [of v] by (intro add_nonneg_eq_0_iff) simp_all
  with Cons show ?case by simp
qed

lemma l2_norm_nonneg: "0 \<le> l2_norm v"
  by (simp add: l2_norm_def dot_self_nonneg)

lemma l2_norm_zero_iff: "l2_norm v = 0 \<longleftrightarrow> (\<forall>x \<in> set v. x = 0)"
  by (simp add: l2_norm_def dot_self_zero_iff)

lemma l2_norm_square: "l2_norm v * l2_norm v = dot v v"
  by (simp add: l2_norm_def dot_self_nonneg)

lemma rank_key_le_iff: "rank_key a \<le> rank_key b \<longleftrightarrow> ranks_before a b"
  by (auto simp: rank_key_def ranks_before_def less_eq_prod_def)

lemma inj_rank_key: "inj rank_key"
  by (auto simp: inj_def rank_key_def prod_eq_iff)

lemma sort_key_mset_cong:
  assumes "inj f" and "mset xs = mset ys"
  shows "sort_key f xs = sort_key f ys"
proof (rule properties_for_sort_key)
  show "mset (sort_key f ys) = mset xs"
    using assms(2) by simp
  show "sorted (map f (sort_key f ys))"
    by (rule sorted_sort_key)
next
  fix k
  have inj_on: "\<And>zs. inj_on f (insert k (set zs))"
    using assms(1) by (rule inj_on_subset) simp
  have "filter (\<lambda>x. f k = f x) (sort_key f ys) = filter ((=) k) (sort_key f ys)"
    using inj_on by (rule inj_on_filter_key_eq)
  also have "\<dots> = replicate (count (mset (sort_key f ys)) k) k"
    by (simp only: replicate_count_mset_eq_filter_eq)
  also have "\<dots> = replicate (count (mset xs) k) k"
    using assms(2) by simp
  also have "\<dots> = filter ((=) k) xs"
    by (simp only: replicate_count_mset_eq_filter_eq)
  also have "\<dots> = filter (\<lambda>x. f k = f x) xs"
    using inj_on by (rule inj_on_filter_key_eq [symmetric])
  finally show "filter (\<lambda>x. f k = f x) (sort_key f ys) = filter (\<lambda>x. f k = f x) xs" .
qed

lemma ranked_sorted: "sorted_wrt ranks_before (sort_key rank_key xs)"
  using sorted_sort_key [of rank_key xs] by (simp add: sorted_map rank_key_le_iff)

lemma index_scores_length: "length (index_scores idx q) = index_size idx"
  by (simp add: index_scores_def index_size_def)

lemma index_search_returns:
  assumes "index_dim idx = None \<or> index_dim idx = Some (length q)"
  shows "index_search idx q k = Inr (take k (sort_key rank_key (index_scores idx q)))"
  using assms by (auto simp: index_search_def)

lemma index_scores_mset_cong:
  "mset (index_entries idx') = mset (index_entries idx) \<Longrightarrow>
   mset (index_scores idx' q) = mset (index_scores idx q)"
  by (simp add: index_scores_def)

lemma index_ok_empty: "index_ok empty_index"
  by (simp add: index_ok_def empty_index_def)

lemma index_ok_insert:
  assumes "index_ok idx" and "index_insert idx i v = Inr idx'"
  shows "index_ok idx'"
  using assms
  by (auto simp: index_ok_def index_insert_def list_all_iff split: if_splits)

lemma index_ok_remove:
  assumes "index_ok idx" and "index_remove idx i = Inr idx'"
  shows "index_ok idx'"
  using assms
  by (auto simp: index_ok_def index_remove_def list_all_iff distinct_map_filter split: if_splits)

lemma index_search_subset:
  assumes "index_search idx q k = Inr rs"
  shows "set rs \<subseteq> set (index_scores idx q)"
proof -
  from assms have "rs = take k (sort_key rank_key (index_scores idx q))"
    by (simp add: index_search_def split: if_splits)
  then show ?thesis
    using set_take_subset [of k "sort_key rank_key (index_scores idx q)"] by simp
qed

lemma sqrt_25: "sqrt 25 = 5"
  by (rule real_sqrt_unique) simp_all

text \<open>The example index is the empty index after three insertions.\<close>

lemma example_index_built:
  "\<exists>a b. index_insert empty_index 1 [1, 0] = Inr a \<and> index_insert a 2 [0, 1] = Inr b
     \<and> index_insert b 3 [3, 4] = Inr example_index"
  by (simp add: index_insert_def empty_index_def example_index_def l2_norm_def sqrt_25)

lemma example_index_ok: "index_ok example_index"
  by (simp add: index_ok_def example_index_def l2_norm_def sqrt_25)

lemma example_search:
  "index_search example_index [1, 0] 2 = Inr [(1, 1), (3, 3 / 5)]"
  by (simp add: index_search_def example_index_def index_scores_def similarity_of_def
      l2_norm_def rank_key_def less_eq_prod_def less_prod_def)

lemma example_search_all:
  "index_search example_index [1, 0] 10 = Inr [(1, 1), (3, 3 / 5), (2, 0)]"
  by (simp add: index_search_def example_index_def index_scores_def similarity_of_def
      l2_norm_def rank_key_def less_eq_prod_def less_prod_def)

section \<open>The claims about the engine\<close>

text \<open>
  Claim C5.  On a query of the index's dimension, \<open>search(q, k)\<close> returns exactly
  \<open>min(k, size())\<close> results, sorted by descending similarity with ties broken by
  ascending id; they are the first of the scored entries in that order (every entry left
  out ranks after every entry returned), and the result is the same for every index
  holding the same entries, in whatever order they are stored.  The only error of a
  search is \<open>DimensionMismatch\<close>, on a query of another dimension: there is none for
  under-population.
\<close>

theorem index_search_top_k:
  "(index_dim idx = None \<or> index_dim idx = Some (length q) \<longrightarrow>
      (\<exists>rs rest. index_search idx q k = Inr rs
        \<and> length rs = min k (index_size idx)
        \<and> sorted_wrt ranks_before rs
        \<and> mset (rs @ rest) = mset (index_scores idx q)
        \<and> (\<forall>a \<in> set rs. \<forall>b \<in> set rest. ranks_before a b)
        \<and> (\<forall>idx'. index_dim idx' = index_dim idx
               \<and> mset (index_entries idx') = mset (index_entries idx)
             \<longrightarrow> index_search idx' q k = Inr rs)))
   \<and> (\<forall>e. index_search idx q k = Inl e \<longrightarrow>
        e = DimensionMismatch \<and> index_dim idx \<noteq> None \<and> index_dim idx \<noteq> Some (length q))"
proof (intro conjI impI allI)
  assume dim: "index_dim idx = None \<or> index_dim idx = Some (length q)"
  let ?S = "sort_key rank_key (index_scores idx q)"
  have sorted: "sorted_wrt ranks_before (take k ?S @ drop k ?S)"
    using ranked_sorted [of "index_scores idx q"] by simp
  have "index_search idx q k = Inr (take k ?S)"
    using dim by (rule index_search_returns)
  moreover have "length (take k ?S) = min k (index_size idx)"
    by (simp add: index_scores_length min.commute)
  moreover have "sorted_wrt ranks_before (take k ?S)"
    using sorted unfolding sorted_wrt_append by blast
  moreover have "mset (take k ?S @ drop k ?S) = mset (index_scores idx q)"
    by simp
  moreover have "\<forall>a \<in> set (take k ?S). \<forall>b \<in> set (drop k ?S). ranks_before a b"
    using sorted unfolding sorted_wrt_append by blast
  moreover have "\<forall>idx'. index_dim idx' = index_dim idx
           \<and> mset (index_entries idx') = mset (index_entries idx)
         \<longrightarrow> index_search idx' q k = Inr (take k ?S)"
  proof (intro allI impI)
    fix idx' :: vector_index
    assume same: "index_dim idx' = index_dim idx
           \<and> mset (index_entries idx') = mset (index_entries idx)"
    then have "sort_key rank_key (index_scores idx' q) = ?S"
      by (intro sort_key_mset_cong inj_rank_key index_scores_mset_cong) simp
    moreover have "index_dim idx' = None \<or> index_dim idx' = Some (length q)"
      using same dim by simp
    ultimately show "index_search idx' q k = Inr (take k ?S)"
      by (simp add: index_search_returns)
  qed
  ultimately show "\<exists>rs rest. index_search idx q k = Inr rs
        \<and> length rs = min k (index_size idx)
        \<and> sorted_wrt ranks_before rs
        \<and> mset (rs @ rest) = mset (index_scores idx q)
        \<and> (\<forall>a \<in> set rs. \<forall>b \<in> set rest. ranks_before a b)
        \<and> (\<forall>idx'. index_dim idx' = index_dim idx
               \<and> mset (index_entries idx') = mset (index_entries idx)
             \<longrightarrow> index_search idx' q k = Inr rs)"
    by blast
next
  fix e
  assume "index_search idx q k = Inl e"
  then show "e = DimensionMismatch" and "index_dim idx \<noteq> None"
    and "index_dim idx \<noteq> Some (length q)"
    by (simp_all add: index_search_def split: if_splits)
qed

theorem index_search_top_k_witness:
  "(\<exists>rs. index_search example_index [1, 0] 2 = Inr rs \<and> length rs = 2
     \<and> sorted_wrt ranks_before rs)
   \<and> index_dim example_index \<noteq> Some (length [1 :: real, 0, 0])"
proof -
  have "index_dim example_index = None \<or> index_dim example_index = Some (length [1 :: real, 0])"
    by (simp add: example_index_def)
  with index_search_top_k [of example_index "[1, 0]" 2]
  obtain rs where "index_search example_index [1, 0] 2 = Inr rs"
    and "length rs = min 2 (index_size example_index)"
    and "sorted_wrt ranks_before rs"
    by blast
  moreover have "min 2 (index_size example_index) = 2"
    by (simp add: index_size_def example_index_def)
  moreover have "index_search example_index [1, 0, 0] 2 = Inl DimensionMismatch"
    by (simp add: index_search_def example_index_def)
  with index_search_top_k [of example_index "[1, 0, 0]" 2]
  have "index_dim example_index \<noteq> Some (length [1 :: real, 0, 0])"
    by blast
  ultimately show ?thesis
    by auto
qed

end
